theory Spec2Isabelle
  imports Main
begin

section \<open>Library panels: the persistence layer of \<^verbatim>\<open>pkg/services/librarypanels/database.go\<close>\<close>

text \<open>
  The Go file implements eight operations of \<^verbatim>\<open>LibraryPanelService\<close> on two tables,
  \<^verbatim>\<open>library_panel\<close> and \<^verbatim>\<open>library_panel_dashboard\<close>. Every operation opens a session of
  the package \<^verbatim>\<open>sqlstore\<close>, issues one or two statements and classifies what the session
  answers. The embedding follows the file function by function:
  \<^item> a Go struct is a record, an \<^verbatim>\<open>int64\<close> an \<open>int\<close> (the code only compares these values
    with \<open>0\<close>, \<open>1\<close> and with each other, it never computes with them, so no wrap-around
    can occur), a \<^verbatim>\<open>string\<close> a \<open>string\<close>, a \<^verbatim>\<open>json.RawMessage\<close> (a byte slice that may
    be \<^verbatim>\<open>nil\<close>) a \<open>string option\<close>, a \<^verbatim>\<open>time.Time\<close> a natural number with \<open>0\<close> for the
    zero time;
  \<^item> a Go result \<^verbatim>\<open>(v, err)\<close> is a pair of the value and an \<open>error option\<close>, \<open>None\<close> for
    \<^verbatim>\<open>nil\<close>: the Go functions return the value they hold also when they fail;
  \<^item> the database is explicit state: a statement takes the state and returns its answer
    and the next state;
  \<^item> \<^verbatim>\<open>time.Now()\<close> and \<^verbatim>\<open>util.GenerateShortUID()\<close> are arguments of the function that
    calls them.
\<close>

subsection \<open>Data\<close>

type_synonym int64 = int
type_synonym time = nat

record LibraryPanel =
  ID :: int64
  OrgID :: int64
  FolderID :: int64
  UID :: string
  Name :: string
  Model :: "string option"
  Created :: time
  Updated :: time
  CreatedBy :: int64
  UpdatedBy :: int64

text \<open>\<^verbatim>\<open>LibraryPanel{}\<close>, the value the Go code returns beside an error of the lookup.\<close>

definition LibraryPanel_zero :: LibraryPanel where
  "LibraryPanel_zero =
     \<lparr>ID = 0, OrgID = 0, FolderID = 0, UID = [], Name = [], Model = None,
      Created = 0, Updated = 0, CreatedBy = 0, UpdatedBy = 0\<rparr>"

text \<open>
  A row of the join table. The fields are the four the code sets in \<^verbatim>\<open>connectDashboard\<close>
  (\<^verbatim>\<open>Created\<close> and \<^verbatim>\<open>CreatedBy\<close> carry the prefix \<open>lpd\<close>, since a record field is a constant
  of the theory).
\<close>

record libraryPanelDashboard =
  DashboardID :: int64
  LibraryPanelID :: int64
  lpd_Created :: time
  lpd_CreatedBy :: int64

record createLibraryPanelCommand =
  create_FolderID :: int64
  create_Name :: string
  create_Model :: "string option"

record patchLibraryPanelCommand =
  patch_FolderID :: int64
  patch_Name :: string
  patch_Model :: "string option"

text \<open>
  Modelled from the spec: the cancellation signal of a Go \<^verbatim>\<open>context.Context\<close>, whose
  type is not part of the sources. \<open>Background\<close> is \<^verbatim>\<open>context.Background()\<close>, which is
  never cancelled; \<open>WithCancel done\<close> is a context a caller made, \<open>done\<close> telling whether
  it has been cancelled or its deadline has passed.
\<close>

datatype Context = Background | WithCancel bool

text \<open>
  \<^verbatim>\<open>models.ReqContext\<close>, as far as the file reads it (\<^verbatim>\<open>c.SignedInUser.OrgId\<close>,
  \<^verbatim>\<open>c.SignedInUser.UserId\<close>), and the context of the request the caller hands over with
  it (\<^verbatim>\<open>c.Req.Context()\<close>, modelled from the spec: the caller-supplied signal).
\<close>

record SignedInUser =
  OrgId :: int64
  UserId :: int64

record ReqContext =
  SignedInUser :: SignedInUser
  Req_Context :: Context

text \<open>
  The errors the operations return: the package's three sentinel values, the formatted
  error of the lookup (\<^verbatim>\<open>found %d panels, while expecting at most one\<close>), an error value
  of the session handed on as it is, and the error of a cancelled context.
\<close>

datatype 'e error =
    errLibraryPanelAlreadyExists
  | errLibraryPanelNotFound
  | errLibraryPanelDashboardNotFound
  | errFoundPanels nat
  | sessionError 'e
  | contextCanceled

subsection \<open>The session, as a parameter\<close>

text \<open>
  The package \<^verbatim>\<open>sqlstore\<close> is not part of the sources: the statements the file issues on
  a \<^verbatim>\<open>DBSession\<close> and the dialect's test for a uniqueness violation are the fields of a
  record the operations take as an argument. \<open>'s\<close> is the state of the database, \<open>'e\<close>
  the error values of the driver. An answer \<open>Inl e\<close> is the Go \<^verbatim>\<open>err != nil\<close>.
  \<^item> \<open>Insert_library_panel\<close>: \<^verbatim>\<open>session.Insert(&libraryPanel)\<close>; the bean is passed by
    pointer, so the answer carries the bean as the session left it, and the row count.
  \<^item> \<open>Insert_library_panel_dashboard\<close>: \<^verbatim>\<open>session.Insert(&libraryPanelDashboard)\<close>.
  \<^item> \<open>Delete_library_panel uid orgID\<close>:
    \<^verbatim>\<open>session.Exec("DELETE FROM library_panel WHERE uid=? and org_id=?", uid, orgID)\<close>;
    the answer \<open>Inr r\<close> is the \<^verbatim>\<open>sql.Result\<close>, and \<open>r\<close> what its \<^verbatim>\<open>RowsAffected()\<close> returns.
  \<^item> \<open>Delete_library_panel_dashboard id dashboardID\<close>: \<^verbatim>\<open>session.Exec("DELETE FROM
    library_panel_dashboard WHERE librarypanel_id=? and dashboard_id=?", ...)\<close>.
  \<^item> \<open>Find_library_panel uid orgID\<close>: \<^verbatim>\<open>Table("library_panel")\<close>,
    \<^verbatim>\<open>Where("uid=? AND org_id=?", uid, orgID)\<close>, \<^verbatim>\<open>Find(&libraryPanels)\<close>.
  \<^item> \<open>Find_all_library_panels orgID\<close>:
    \<^verbatim>\<open>session.SQL("SELECT * FROM library_panel WHERE org_id=?", orgID).Find(...)\<close>.
  \<^item> \<open>Find_library_panel_dashboard id\<close>: \<^verbatim>\<open>Table("library_panel_dashboard")\<close>,
    \<^verbatim>\<open>Where("librarypanel_id=?", id)\<close>, \<^verbatim>\<open>Find(&libraryPanelDashboards)\<close>.
  \<^item> \<open>Update_library_panel id bean\<close>: \<^verbatim>\<open>session.ID(id).Update(&libraryPanel)\<close>.
  \<^item> \<open>IsUniqueConstraintViolation\<close>: \<^verbatim>\<open>lps.SQLStore.Dialect.IsUniqueConstraintViolation\<close>.
\<close>

record ('s, 'e) SQLStore =
  Insert_library_panel :: "LibraryPanel \<Rightarrow> 's \<Rightarrow> (LibraryPanel \<times> ('e + int64)) \<times> 's"
  Insert_library_panel_dashboard :: "libraryPanelDashboard \<Rightarrow> 's \<Rightarrow> ('e + int64) \<times> 's"
  Delete_library_panel :: "string \<Rightarrow> int64 \<Rightarrow> 's \<Rightarrow> ('e + ('e + int64)) \<times> 's"
  Delete_library_panel_dashboard :: "int64 \<Rightarrow> int64 \<Rightarrow> 's \<Rightarrow> ('e + ('e + int64)) \<times> 's"
  Find_library_panel :: "string \<Rightarrow> int64 \<Rightarrow> 's \<Rightarrow> ('e + LibraryPanel list) \<times> 's"
  Find_all_library_panels :: "int64 \<Rightarrow> 's \<Rightarrow> ('e + LibraryPanel list) \<times> 's"
  Find_library_panel_dashboard :: "int64 \<Rightarrow> 's \<Rightarrow> ('e + libraryPanelDashboard list) \<times> 's"
  Update_library_panel :: "int64 \<Rightarrow> LibraryPanel \<Rightarrow> 's \<Rightarrow> ('e + int64) \<times> 's"
  IsUniqueConstraintViolation :: "'e \<Rightarrow> bool"

text \<open>
  Modelled from the spec: the two scopes of \<^verbatim>\<open>sqlstore\<close>, whose code is not part of the
  sources. A scope runs the callback on the database; the callback is a Go closure, so
  beside the state it takes and returns the variable \<open>v\<close> it captures. A scope whose
  context is already cancelled does not run the callback. The transactional scope
  commits when the callback returns \<^verbatim>\<open>nil\<close> and rolls the database back to the state it
  started from when the callback returns an error; the assignments the closure made to
  its captured variable stay. The plain scope keeps what each statement did.
\<close>

definition Err :: "Context \<Rightarrow> 'e error option" where
  "Err ctx = (case ctx of Background \<Rightarrow> None
              | WithCancel done \<Rightarrow> if done then Some contextCanceled else None)"

definition WithTransactionalDbSession ::
  "Context \<Rightarrow> ('v \<Rightarrow> 's \<Rightarrow> ('v \<times> 'e error option) \<times> 's) \<Rightarrow> 'v \<Rightarrow> 's \<Rightarrow> ('v \<times> 'e error option) \<times> 's"
where
  "WithTransactionalDbSession ctx callback v s =
     (case Err ctx of
        Some e \<Rightarrow> ((v, Some e), s)
      | None \<Rightarrow>
          (case callback v s of
             ((v', None), s') \<Rightarrow> ((v', None), s')
           | ((v', Some e), s') \<Rightarrow> ((v', Some e), s)))"

definition WithDbSession ::
  "Context \<Rightarrow> ('v \<Rightarrow> 's \<Rightarrow> ('v \<times> 'e error option) \<times> 's) \<Rightarrow> 'v \<Rightarrow> 's \<Rightarrow> ('v \<times> 'e error option) \<times> 's"
where
  "WithDbSession ctx callback v s =
     (case Err ctx of
        Some e \<Rightarrow> ((v, Some e), s)
      | None \<Rightarrow> callback v s)"

subsection \<open>The operations of \<^verbatim>\<open>database.go\<close>\<close>

text \<open>
  \<^verbatim>\<open>getLibraryPanel(session, uid, orgID)\<close>, lines 113 to 129: the rows matching
  \<^verbatim>\<open>(uid, orgID)\<close>; none is \<^verbatim>\<open>errLibraryPanelNotFound\<close>, more than one the formatted error.
\<close>

definition getLibraryPanel ::
  "('s, 'e) SQLStore \<Rightarrow> string \<Rightarrow> int64 \<Rightarrow> 's \<Rightarrow> (LibraryPanel \<times> 'e error option) \<times> 's"
where
  "getLibraryPanel session uid orgID s =
     (case Find_library_panel session uid orgID s of
        (Inl err, s') \<Rightarrow> ((LibraryPanel_zero, Some (sessionError err)), s')
      | (Inr libraryPanels, s') \<Rightarrow>
          if length libraryPanels = 0 then
            ((LibraryPanel_zero, Some errLibraryPanelNotFound), s')
          else if length libraryPanels > 1 then
            ((LibraryPanel_zero, Some (errFoundPanels (length libraryPanels))), s')
          else ((libraryPanels ! 0, None), s'))"

text \<open>
  \<^verbatim>\<open>createLibraryPanel\<close>, lines 16 to 41. \<open>uid\<close> is what \<^verbatim>\<open>util.GenerateShortUID()\<close>
  returns, \<open>now1\<close> and \<open>now2\<close> the two readings of \<^verbatim>\<open>time.Now()\<close>.
\<close>

definition createLibraryPanel ::
  "('s, 'e) SQLStore \<Rightarrow> string \<Rightarrow> time \<Rightarrow> time \<Rightarrow> ReqContext \<Rightarrow> createLibraryPanelCommand \<Rightarrow> 's
     \<Rightarrow> (LibraryPanel \<times> 'e error option) \<times> 's"
where
  "createLibraryPanel lps uid now1 now2 c cmd s =
     WithTransactionalDbSession Background
       (\<lambda>libraryPanel session.
          case Insert_library_panel lps libraryPanel session of
            ((libraryPanel', Inl err), session') \<Rightarrow>
              if IsUniqueConstraintViolation lps err then
                ((libraryPanel', Some errLibraryPanelAlreadyExists), session')
              else ((libraryPanel', Some (sessionError err)), session')
          | ((libraryPanel', Inr _), session') \<Rightarrow> ((libraryPanel', None), session'))
       \<lparr>ID = 0,
        OrgID = OrgId (SignedInUser c),
        FolderID = create_FolderID cmd,
        UID = uid,
        Name = create_Name cmd,
        Model = create_Model cmd,
        Created = now1,
        Updated = now2,
        CreatedBy = UserId (SignedInUser c),
        UpdatedBy = UserId (SignedInUser c)\<rparr>
       s"

text \<open>
  \<^verbatim>\<open>connectDashboard\<close>, lines 44 to 69. The closure captures nothing it assigns to, so
  its variable is \<open>()\<close>; the operation returns the error alone.
\<close>

definition connectDashboard ::
  "('s, 'e) SQLStore \<Rightarrow> time \<Rightarrow> ReqContext \<Rightarrow> string \<Rightarrow> int64 \<Rightarrow> 's \<Rightarrow> 'e error option \<times> 's"
where
  "connectDashboard lps now c uid dashboardID s =
     (case WithTransactionalDbSession Background
        (\<lambda>u session.
           case getLibraryPanel lps uid (OrgId (SignedInUser c)) session of
             ((_, Some err), session1) \<Rightarrow> ((u, Some err), session1)
           | ((panel, None), session1) \<Rightarrow>
               (case Insert_library_panel_dashboard lps
                       \<lparr>DashboardID = dashboardID,
                        LibraryPanelID = ID panel,
                        lpd_Created = now,
                        lpd_CreatedBy = UserId (SignedInUser c)\<rparr> session1 of
                  (Inl err, session2) \<Rightarrow>
                    if IsUniqueConstraintViolation lps err then ((u, None), session2)
                    else ((u, Some (sessionError err)), session2)
                | (Inr _, session2) \<Rightarrow> ((u, None), session2)))
        () s of
        ((_, err), s') \<Rightarrow> (err, s'))"

text \<open>\<^verbatim>\<open>deleteLibraryPanel\<close>, lines 72 to 88.\<close>

definition deleteLibraryPanel ::
  "('s, 'e) SQLStore \<Rightarrow> ReqContext \<Rightarrow> string \<Rightarrow> 's \<Rightarrow> 'e error option \<times> 's"
where
  "deleteLibraryPanel lps c uid s =
     (let orgID = OrgId (SignedInUser c) in
      case WithTransactionalDbSession Background
        (\<lambda>u session.
           case Delete_library_panel lps uid orgID session of
             (Inl err, session1) \<Rightarrow> ((u, Some (sessionError err)), session1)
           | (Inr result, session1) \<Rightarrow>
               (case result of
                  Inl err \<Rightarrow> ((u, Some (sessionError err)), session1)
                | Inr rowsAffected \<Rightarrow>
                    if rowsAffected \<noteq> 1 then ((u, Some errLibraryPanelNotFound), session1)
                    else ((u, None), session1)))
        () s of
        ((_, err), s') \<Rightarrow> (err, s'))"

text \<open>\<^verbatim>\<open>disconnectDashboard\<close>, lines 91 to 111.\<close>

definition disconnectDashboard ::
  "('s, 'e) SQLStore \<Rightarrow> ReqContext \<Rightarrow> string \<Rightarrow> int64 \<Rightarrow> 's \<Rightarrow> 'e error option \<times> 's"
where
  "disconnectDashboard lps c uid dashboardID s =
     (case WithTransactionalDbSession Background
        (\<lambda>u session.
           case getLibraryPanel lps uid (OrgId (SignedInUser c)) session of
             ((_, Some err), session1) \<Rightarrow> ((u, Some err), session1)
           | ((panel, None), session1) \<Rightarrow>
               (case Delete_library_panel_dashboard lps (ID panel) dashboardID session1 of
                  (Inl err, session2) \<Rightarrow> ((u, Some (sessionError err)), session2)
                | (Inr result, session2) \<Rightarrow>
                    (case result of
                       Inl err \<Rightarrow> ((u, Some (sessionError err)), session2)
                     | Inr rowsAffected \<Rightarrow>
                         if rowsAffected \<noteq> 1 then
                           ((u, Some errLibraryPanelDashboardNotFound), session2)
                         else ((u, None), session2))))
        () s of
        ((_, err), s') \<Rightarrow> (err, s'))"

text \<open>
  The method \<^verbatim>\<open>(lps *LibraryPanelService) getLibraryPanel\<close>, lines 132 to 141 (the name
  with the suffix \<open>_svc\<close>: Go tells the method from the function by the receiver). The
  closure assigns both results of the lookup to the captured \<^verbatim>\<open>libraryPanel\<close>.
\<close>

definition getLibraryPanel_svc ::
  "('s, 'e) SQLStore \<Rightarrow> ReqContext \<Rightarrow> string \<Rightarrow> 's \<Rightarrow> (LibraryPanel \<times> 'e error option) \<times> 's"
where
  "getLibraryPanel_svc lps c uid s =
     WithDbSession Background
       (\<lambda>libraryPanel session. getLibraryPanel lps uid (OrgId (SignedInUser c)) session)
       LibraryPanel_zero s"

text \<open>\<^verbatim>\<open>getAllLibraryPanels\<close>, lines 144 to 157.\<close>

definition getAllLibraryPanels ::
  "('s, 'e) SQLStore \<Rightarrow> ReqContext \<Rightarrow> 's \<Rightarrow> (LibraryPanel list \<times> 'e error option) \<times> 's"
where
  "getAllLibraryPanels lps c s =
     (let orgID = OrgId (SignedInUser c) in
      WithDbSession Background
        (\<lambda>libraryPanels session.
           case Find_all_library_panels lps orgID session of
             (Inl err, session1) \<Rightarrow> ((libraryPanels, Some (sessionError err)), session1)
           | (Inr found, session1) \<Rightarrow> ((libraryPanels @ found, None), session1))
        [] s)"

text \<open>
  \<^verbatim>\<open>getConnectedDashboards\<close>, lines 160 to 184. The scope is \<^verbatim>\<open>WithDbSession\<close>, the plain
  one. The \<^verbatim>\<open>range\<close> loop appends the dashboard id of each row in turn.
\<close>

definition getConnectedDashboards ::
  "('s, 'e) SQLStore \<Rightarrow> ReqContext \<Rightarrow> string \<Rightarrow> 's \<Rightarrow> (int64 list \<times> 'e error option) \<times> 's"
where
  "getConnectedDashboards lps c uid s =
     WithDbSession Background
       (\<lambda>connectedDashboardIDs session.
          case getLibraryPanel lps uid (OrgId (SignedInUser c)) session of
            ((_, Some err), session1) \<Rightarrow> ((connectedDashboardIDs, Some err), session1)
          | ((panel, None), session1) \<Rightarrow>
              (case Find_library_panel_dashboard lps (ID panel) session1 of
                 (Inl err, session2) \<Rightarrow>
                   ((connectedDashboardIDs, Some (sessionError err)), session2)
               | (Inr libraryPanelDashboards, session2) \<Rightarrow>
                   ((foldl (\<lambda>ids lpd. ids @ [DashboardID lpd])
                       connectedDashboardIDs libraryPanelDashboards, None), session2)))
       [] s"

text \<open>
  \<^verbatim>\<open>patchLibraryPanel\<close>, lines 187 to 231. \<open>now\<close> is the reading of \<^verbatim>\<open>time.Now()\<close>.
  Lines 195 to 216 build the row that replaces the one in the database: the struct
  literal, then the three \<^verbatim>\<open>if\<close> statements that overwrite the fields the command left
  at their zero values.
\<close>

definition patchLibraryPanel_libraryPanel ::
  "time \<Rightarrow> ReqContext \<Rightarrow> patchLibraryPanelCommand \<Rightarrow> string \<Rightarrow> LibraryPanel \<Rightarrow> LibraryPanel"
where
  "patchLibraryPanel_libraryPanel now c cmd uid panelInDB =
     (let libraryPanel1 =
            \<lparr>ID = ID panelInDB,
             OrgID = OrgId (SignedInUser c),
             FolderID = patch_FolderID cmd,
             UID = uid,
             Name = patch_Name cmd,
             Model = patch_Model cmd,
             Created = Created panelInDB,
             Updated = now,
             CreatedBy = CreatedBy panelInDB,
             UpdatedBy = UserId (SignedInUser c)\<rparr>;
          libraryPanel2 =
            (if patch_FolderID cmd = 0
             then libraryPanel1\<lparr>FolderID := FolderID panelInDB\<rparr> else libraryPanel1);
          libraryPanel3 =
            (if patch_Name cmd = []
             then libraryPanel2\<lparr>Name := Name panelInDB\<rparr> else libraryPanel2)
      in if patch_Model cmd = None
         then libraryPanel3\<lparr>Model := Model panelInDB\<rparr> else libraryPanel3)"

text \<open>
  The captured \<^verbatim>\<open>libraryPanel\<close> starts as the zero value and is assigned once the lookup
  has succeeded.
\<close>

definition patchLibraryPanel ::
  "('s, 'e) SQLStore \<Rightarrow> time \<Rightarrow> ReqContext \<Rightarrow> patchLibraryPanelCommand \<Rightarrow> string \<Rightarrow> 's
     \<Rightarrow> (LibraryPanel \<times> 'e error option) \<times> 's"
where
  "patchLibraryPanel lps now c cmd uid s =
     WithTransactionalDbSession Background
       (\<lambda>libraryPanel0 session.
          case getLibraryPanel lps uid (OrgId (SignedInUser c)) session of
            ((_, Some err), session1) \<Rightarrow> ((libraryPanel0, Some err), session1)
          | ((panelInDB, None), session1) \<Rightarrow>
              (let libraryPanel = patchLibraryPanel_libraryPanel now c cmd uid panelInDB
               in case Update_library_panel lps (ID panelInDB) libraryPanel session1 of
                    (Inl err, session2) \<Rightarrow>
                      if IsUniqueConstraintViolation lps err then
                        ((libraryPanel, Some errLibraryPanelAlreadyExists), session2)
                      else ((libraryPanel, Some (sessionError err)), session2)
                  | (Inr rowsAffected, session2) \<Rightarrow>
                      if rowsAffected \<noteq> 1 then
                        ((libraryPanel, Some errLibraryPanelNotFound), session2)
                      else ((libraryPanel, None), session2)))
       LibraryPanel_zero s"

subsection \<open>A reference database\<close>

text \<open>
  Modelled from the spec: the two tables and what the statements do to them. The schema
  and the engine are not part of the sources; the spec gives the persisted layout (table
  A with a storage-assigned primary key and a unique UID, table B with a unique pair of
  panel key and dashboard id), a delete that does not cascade and an update by internal
  key. A table is the list of its rows. The engine reports \<open>UniqueViolation\<close> when a
  statement would break a unique constraint; \<open>ConnectionLost\<close> stands for every other
  fault of a driver, which this database itself never raises.
\<close>

record store =
  library_panel :: "LibraryPanel list"
  library_panel_dashboard :: "libraryPanelDashboard list"
  next_id :: int64

datatype store_error = UniqueViolation | ConnectionLost

text \<open>The two \<^verbatim>\<open>WHERE\<close> clauses with two columns.\<close>

definition panel_matches :: "string \<Rightarrow> int64 \<Rightarrow> LibraryPanel \<Rightarrow> bool" where
  "panel_matches uid orgID r = (UID r = uid \<and> OrgID r = orgID)"

definition connection_matches :: "int64 \<Rightarrow> int64 \<Rightarrow> libraryPanelDashboard \<Rightarrow> bool" where
  "connection_matches key dashboardID r = (LibraryPanelID r = key \<and> DashboardID r = dashboardID)"

definition store_Insert_library_panel ::
  "LibraryPanel \<Rightarrow> store \<Rightarrow> (LibraryPanel \<times> (store_error + int64)) \<times> store"
where
  "store_Insert_library_panel bean s =
     (if list_ex (\<lambda>r. UID r = UID bean) (library_panel s) then
        ((bean, Inl UniqueViolation), s)
      else
        (let bean' = bean\<lparr>ID := next_id s\<rparr>
         in ((bean', Inr 1),
             s\<lparr>library_panel := library_panel s @ [bean'], next_id := next_id s + 1\<rparr>)))"

definition store_Insert_library_panel_dashboard ::
  "libraryPanelDashboard \<Rightarrow> store \<Rightarrow> (store_error + int64) \<times> store"
where
  "store_Insert_library_panel_dashboard bean s =
     (if list_ex (connection_matches (LibraryPanelID bean) (DashboardID bean))
           (library_panel_dashboard s) then
        (Inl UniqueViolation, s)
      else (Inr 1, s\<lparr>library_panel_dashboard := library_panel_dashboard s @ [bean]\<rparr>))"

definition store_Delete_library_panel ::
  "string \<Rightarrow> int64 \<Rightarrow> store \<Rightarrow> (store_error + (store_error + int64)) \<times> store"
where
  "store_Delete_library_panel uid orgID s =
     (Inr (Inr (int (length (filter (panel_matches uid orgID) (library_panel s))))),
      s\<lparr>library_panel := filter (\<lambda>r. \<not> panel_matches uid orgID r) (library_panel s)\<rparr>)"

definition store_Delete_library_panel_dashboard ::
  "int64 \<Rightarrow> int64 \<Rightarrow> store \<Rightarrow> (store_error + (store_error + int64)) \<times> store"
where
  "store_Delete_library_panel_dashboard key dashboardID s =
     (Inr (Inr (int (length (filter (connection_matches key dashboardID)
                               (library_panel_dashboard s))))),
      s\<lparr>library_panel_dashboard :=
           filter (\<lambda>r. \<not> connection_matches key dashboardID r) (library_panel_dashboard s)\<rparr>)"

definition store_Update_library_panel ::
  "int64 \<Rightarrow> LibraryPanel \<Rightarrow> store \<Rightarrow> (store_error + int64) \<times> store"
where
  "store_Update_library_panel key bean s =
     (let after = map (\<lambda>r. if ID r = key then bean else r) (library_panel s)
      in if list_ex (\<lambda>r. ID r = key) (library_panel s)
            \<and> length (filter (\<lambda>r. UID r = UID bean) after) > 1 then
           (Inl UniqueViolation, s)
         else
           (Inr (int (length (filter (\<lambda>r. ID r = key) (library_panel s)))),
            s\<lparr>library_panel := after\<rparr>))"

definition memStore :: "(store, store_error) SQLStore" where
  "memStore =
     \<lparr>Insert_library_panel = store_Insert_library_panel,
      Insert_library_panel_dashboard = store_Insert_library_panel_dashboard,
      Delete_library_panel = store_Delete_library_panel,
      Delete_library_panel_dashboard = store_Delete_library_panel_dashboard,
      Find_library_panel =
        (\<lambda>uid orgID s. (Inr (filter (panel_matches uid orgID) (library_panel s)), s)),
      Find_all_library_panels =
        (\<lambda>orgID s. (Inr (filter (\<lambda>r. OrgID r = orgID) (library_panel s)), s)),
      Find_library_panel_dashboard =
        (\<lambda>key s. (Inr (filter (\<lambda>r. LibraryPanelID r = key) (library_panel_dashboard s)), s)),
      Update_library_panel = store_Update_library_panel,
      IsUniqueConstraintViolation = (\<lambda>e. e = UniqueViolation)\<rparr>"

text \<open>
  Modelled from the spec: the invariants of the persisted layout. The primary key and the
  UID are unique among the panels, the pair of panel key and dashboard id is unique among
  the connections.
\<close>

definition well_formed :: "store \<Rightarrow> bool" where
  "well_formed s =
     (distinct (map ID (library_panel s))
      \<and> distinct (map UID (library_panel s))
      \<and> distinct (map (\<lambda>r. (LibraryPanelID r, DashboardID r)) (library_panel_dashboard s)))"

text \<open>
  Values for the concrete runs below: a request of user 42 in organization 1, two panels
  of that organization, and a database holding them, the first connected to dashboard
  100.
\<close>

definition req :: ReqContext where
  "req = \<lparr>SignedInUser = \<lparr>OrgId = 1, UserId = 42\<rparr>, Req_Context = Background\<rparr>"

definition cpu :: LibraryPanel where
  "cpu = \<lparr>ID = 1, OrgID = 1, FolderID = 5, UID = ''cpu'', Name = ''CPU'',
          Model = Some ''{type:graph}'', Created = 10, Updated = 10,
          CreatedBy = 7, UpdatedBy = 7\<rparr>"

definition mem :: LibraryPanel where
  "mem = \<lparr>ID = 2, OrgID = 1, FolderID = 0, UID = ''mem'', Name = ''Memory'',
          Model = None, Created = 11, Updated = 12, CreatedBy = 7, UpdatedBy = 8\<rparr>"

definition cpu_on_100 :: libraryPanelDashboard where
  "cpu_on_100 = \<lparr>DashboardID = 100, LibraryPanelID = 1, lpd_Created = 20, lpd_CreatedBy = 7\<rparr>"

definition db :: store where
  "db = \<lparr>library_panel = [cpu, mem], library_panel_dashboard = [cpu_on_100], next_id = 3\<rparr>"

text \<open>The database \<open>db\<close> once the second panel is connected to dashboard 9.\<close>

definition db_mem_on_9 :: store where
  "db_mem_on_9 =
     \<lparr>library_panel = [cpu, mem],
      library_panel_dashboard =
        [cpu_on_100,
         \<lparr>DashboardID = 9, LibraryPanelID = 2, lpd_Created = 30, lpd_CreatedBy = 42\<rparr>],
      next_id = 3\<rparr>"

text \<open>A patch that renames the first panel at time 50, and the row it makes of it.\<close>

definition rename :: patchLibraryPanelCommand where
  "rename = \<lparr>patch_FolderID = 0, patch_Name = ''CPU load'', patch_Model = None\<rparr>"

definition cpu_renamed :: LibraryPanel where
  "cpu_renamed = \<lparr>ID = 1, OrgID = 1, FolderID = 5, UID = ''cpu'', Name = ''CPU load'',
                  Model = Some ''{type:graph}'', Created = 10, Updated = 50,
                  CreatedBy = 7, UpdatedBy = 42\<rparr>"

text \<open>A patch with every field unset, applied to the first panel at time 60.\<close>

definition touch :: patchLibraryPanelCommand where
  "touch = \<lparr>patch_FolderID = 0, patch_Name = [], patch_Model = None\<rparr>"

definition cpu_touched :: LibraryPanel where
  "cpu_touched = \<lparr>ID = 1, OrgID = 1, FolderID = 5, UID = ''cpu'', Name = ''CPU'',
                  Model = Some ''{type:graph}'', Created = 10, Updated = 60,
                  CreatedBy = 7, UpdatedBy = 42\<rparr>"

text \<open>
  A create command, and the panel \<^verbatim>\<open>createLibraryPanel\<close> builds from it for the UID
  \<open>''gpu''\<close> at the times 70 and 71, before the database assigns its key.
\<close>

definition new_panel :: createLibraryPanelCommand where
  "new_panel = \<lparr>create_FolderID = 5, create_Name = ''GPU'', create_Model = Some ''{type:stat}''\<rparr>"

definition gpu :: LibraryPanel where
  "gpu = \<lparr>ID = 0, OrgID = 1, FolderID = 5, UID = ''gpu'', Name = ''GPU'',
          Model = Some ''{type:stat}'', Created = 70, Updated = 71,
          CreatedBy = 42, UpdatedBy = 42\<rparr>"

text \<open>The request \<open>req\<close> of a caller whose context has been cancelled.\<close>

definition cancelled_req :: ReqContext where
  "cancelled_req = \<lparr>SignedInUser = \<lparr>OrgId = 1, UserId = 42\<rparr>, Req_Context = WithCancel True\<rparr>"


section \<open>Properties\<close>

subsection \<open>The scopes and the reference database\<close>

lemma filter_key_single:
  "distinct (map f xs) \<Longrightarrow> p \<in> set xs \<Longrightarrow> (\<And>r. r \<in> set xs \<Longrightarrow> P r \<longleftrightarrow> f r = f p \<and> Q r) \<Longrightarrow> Q p
   \<Longrightarrow> filter P xs = [p]"
proof (induction xs)
  case Nil
  then show ?case by simp
next
  case (Cons x xs)
  show ?case
  proof (cases "x = p")
    case True
    have "\<forall>r \<in> set xs. \<not> P r" using Cons.prems True by (auto simp: image_iff)
    then have "filter P xs = []" by (simp add: filter_empty_conv)
    then show ?thesis using Cons.prems True by simp
  next
    case False
    then have "p \<in> set xs" using Cons.prems by simp
    moreover have "\<not> P x" using Cons.prems \<open>p \<in> set xs\<close> by (auto simp: image_iff)
    ultimately show ?thesis using Cons by simp
  qed
qed

lemma filter_single_remove1:
  "filter P xs = [p] \<Longrightarrow> filter (\<lambda>r. \<not> P r) xs = remove1 p xs"
proof (induction xs)
  case Nil
  then show ?case by simp
next
  case (Cons x xs)
  show ?case
  proof (cases "P x")
    case True
    then have "x = p" and "filter P xs = []" using Cons.prems by simp_all
    then have "filter (\<lambda>r. \<not> P r) xs = xs" by (simp add: filter_empty_conv filter_id_conv)
    then show ?thesis using True \<open>x = p\<close> by simp
  next
    case False
    then have "filter P xs = [p]" using Cons.prems by simp
    moreover from this have "p \<in> set (filter P xs)" by simp
    then have "P p" by simp
    then have "x \<noteq> p" using False by auto
    ultimately show ?thesis using False Cons.IH by simp
  qed
qed

lemma filter_key_at_most_one:
  "distinct (map f xs) \<Longrightarrow> length (filter (\<lambda>r. f r = k) xs) \<le> 1"
proof (induction xs)
  case Nil
  then show ?case by simp
next
  case (Cons x xs)
  show ?case
  proof (cases "f x = k")
    case True
    have "f x \<notin> f ` set xs" using Cons.prems by simp
    then have "\<forall>r \<in> set xs. f r \<noteq> k" using True by blast
    then have "filter (\<lambda>r. f r = k) xs = []" by (simp add: filter_empty_conv)
    then show ?thesis by simp
  next
    case False
    then show ?thesis using Cons by simp
  qed
qed

lemma store_lookup:
  "well_formed s \<Longrightarrow> p \<in> set (library_panel s)
   \<Longrightarrow> filter (panel_matches (UID p) (OrgID p)) (library_panel s) = [p]"
  by (rule filter_key_single [where f = UID and Q = "\<lambda>r. OrgID r = OrgID p"])
     (auto simp: well_formed_def panel_matches_def)

lemma store_connection:
  "well_formed s \<Longrightarrow> r \<in> set (library_panel_dashboard s)
   \<Longrightarrow> filter (connection_matches (LibraryPanelID r) (DashboardID r)) (library_panel_dashboard s) = [r]"
  by (rule filter_key_single [where f = "\<lambda>r. (LibraryPanelID r, DashboardID r)" and Q = "\<lambda>r. True"])
     (auto simp: well_formed_def connection_matches_def)

lemma store_find:
  "Find_library_panel memStore uid orgID s
     = (Inr (filter (panel_matches uid orgID) (library_panel s)), s)"
  by (simp add: memStore_def)

lemma store_no_match:
  "(\<forall>p \<in> set (library_panel s). \<not> (UID p = uid \<and> OrgID p = orgID))
   \<Longrightarrow> Find_library_panel memStore uid orgID s = (Inr [], s)"
  by (simp add: store_find filter_empty_conv panel_matches_def)

lemma store_match:
  "well_formed s \<Longrightarrow> p \<in> set (library_panel s) \<Longrightarrow> UID p = uid \<Longrightarrow> OrgID p = orgID
   \<Longrightarrow> Find_library_panel memStore uid orgID s = (Inr [p], s)"
  using store_lookup [of s p] by (simp add: store_find)

lemma connection_matches_fields:
  "connection_matches k d = (\<lambda>r. LibraryPanelID r = k \<and> DashboardID r = d)"
  by (rule ext) (simp add: connection_matches_def)

lemma range_loop:
  "foldl (\<lambda>ids lpd. ids @ [DashboardID lpd]) acc rows = acc @ map DashboardID rows"
  by (induction rows arbitrary: acc) simp_all

lemma transactional_Background:
  "WithTransactionalDbSession Background f v s =
     (case f v s of ((v', None), s') \<Rightarrow> ((v', None), s') | ((v', Some e), s') \<Rightarrow> ((v', Some e), s))"
  by (simp add: WithTransactionalDbSession_def Err_def)

lemma plain_Background: "WithDbSession Background f v s = f v s"
  by (simp add: WithDbSession_def Err_def)

subsection \<open>The lookup\<close>

lemma getLibraryPanel_found:
  "Find_library_panel lps uid orgID s = (Inr [p], s1)
   \<Longrightarrow> getLibraryPanel lps uid orgID s = ((p, None), s1)"
  by (simp add: getLibraryPanel_def)

lemma getLibraryPanel_none:
  "Find_library_panel lps uid orgID s = (Inr [], s1)
   \<Longrightarrow> getLibraryPanel lps uid orgID s = ((LibraryPanel_zero, Some errLibraryPanelNotFound), s1)"
  by (simp add: getLibraryPanel_def)

text \<open>
  C3. For every \<open>uid\<close> and \<open>orgID\<close>, whatever rows the session answers for the lookup:
  no row gives \<open>errLibraryPanelNotFound\<close>; more than one row gives the error that
  counts them, which is a different error value; exactly one row is returned with no
  error. The service's method returns what the lookup returns.
\<close>

theorem getLibraryPanel_three_cases:
  assumes "Find_library_panel lps uid orgID s = (Inr rows, s1)"
  shows "(rows = [] \<longrightarrow>
            getLibraryPanel lps uid orgID s
              = ((LibraryPanel_zero, Some errLibraryPanelNotFound), s1))
       \<and> (length rows > 1 \<longrightarrow>
            getLibraryPanel lps uid orgID s
              = ((LibraryPanel_zero, Some (errFoundPanels (length rows))), s1)
            \<and> (errFoundPanels (length rows) :: 'e error) \<noteq> errLibraryPanelNotFound)
       \<and> (\<forall>p. rows = [p] \<longrightarrow> getLibraryPanel lps uid orgID s = ((p, None), s1))
       \<and> (orgID = OrgId (SignedInUser c) \<longrightarrow>
            getLibraryPanel_svc lps c uid s = getLibraryPanel lps uid orgID s)"
  using assms by (auto simp: getLibraryPanel_def getLibraryPanel_svc_def WithDbSession_def Err_def)

theorem getLibraryPanel_three_cases_witness:
  "getLibraryPanel memStore ''gpu'' 1 db
     = ((LibraryPanel_zero, Some errLibraryPanelNotFound), db)
   \<and> getLibraryPanel memStore ''cpu'' 1 (db\<lparr>library_panel := [cpu, mem, cpu]\<rparr>)
     = ((LibraryPanel_zero, Some (errFoundPanels 2)), db\<lparr>library_panel := [cpu, mem, cpu]\<rparr>)
   \<and> getLibraryPanel memStore ''cpu'' 1 db = ((cpu, None), db)
   \<and> getLibraryPanel_svc memStore req ''cpu'' db = ((cpu, None), db)"
  using getLibraryPanel_three_cases [of memStore "''gpu''" 1 db "[]" db req]
        getLibraryPanel_three_cases [of memStore "''cpu''" 1 "db\<lparr>library_panel := [cpu, mem, cpu]\<rparr>"
          "[cpu, cpu]" "db\<lparr>library_panel := [cpu, mem, cpu]\<rparr>" req]
        getLibraryPanel_three_cases [of memStore "''cpu''" 1 db "[cpu]" db req]
  by (simp add: memStore_def db_def cpu_def mem_def req_def panel_matches_def)

subsection \<open>Delete\<close>

text \<open>
  C4. \<^verbatim>\<open>deleteLibraryPanel\<close> issues the \<^verbatim>\<open>DELETE\<close> by \<open>(uid, orgID)\<close> and nothing else: it
  does not depend on any of the session's reads, and when the statement reports \<open>n\<close>
  affected rows the result is success with the statement's state for \<open>n = 1\<close> and
  \<open>errLibraryPanelNotFound\<close> with the database rolled back otherwise (so for \<open>n = 0\<close>).
  On the reference database, in every state: when no panel has the \<open>uid\<close> in the
  caller's organization, the operation fails with \<open>errLibraryPanelNotFound\<close> and the
  database is unchanged; when a panel \<open>p\<close> of a well-formed database has it, the
  operation succeeds and the new state differs from the old one only in that \<open>p\<close> is
  removed from the panel table: every other panel row and the whole connection table,
  the rows that reference the key of \<open>p\<close> included, stay as they were.
\<close>

theorem deleteLibraryPanel_frame:
  "(\<forall>f g h. deleteLibraryPanel
              (lps\<lparr>Find_library_panel := f, Find_all_library_panels := g,
                   Find_library_panel_dashboard := h\<rparr>) c uid t
            = deleteLibraryPanel lps c uid t)
   \<and> (\<forall>n t1. Delete_library_panel lps uid (OrgId (SignedInUser c)) t = (Inr (Inr n), t1) \<longrightarrow>
         deleteLibraryPanel lps c uid t
           = (if n = 1 then (None, t1) else (Some errLibraryPanelNotFound, t)))
   \<and> ((\<forall>p \<in> set (library_panel s). \<not> (UID p = uid \<and> OrgID p = OrgId (SignedInUser c))) \<longrightarrow>
         deleteLibraryPanel memStore c uid s = (Some errLibraryPanelNotFound, s))
   \<and> (\<forall>p. well_formed s \<and> p \<in> set (library_panel s) \<and> UID p = uid
            \<and> OrgID p = OrgId (SignedInUser c) \<longrightarrow>
         deleteLibraryPanel memStore c uid s
           = (None, s\<lparr>library_panel := remove1 p (library_panel s)\<rparr>))"
proof (intro conjI allI impI)
  fix f g h
  show "deleteLibraryPanel
          (lps\<lparr>Find_library_panel := f, Find_all_library_panels := g,
               Find_library_panel_dashboard := h\<rparr>) c uid t
        = deleteLibraryPanel lps c uid t"
    by (simp add: deleteLibraryPanel_def)
next
  fix n t1
  assume "Delete_library_panel lps uid (OrgId (SignedInUser c)) t = (Inr (Inr n), t1)"
  then show "deleteLibraryPanel lps c uid t
               = (if n = 1 then (None, t1) else (Some errLibraryPanelNotFound, t))"
    by (simp add: deleteLibraryPanel_def transactional_Background)
next
  assume "\<forall>p \<in> set (library_panel s). \<not> (UID p = uid \<and> OrgID p = OrgId (SignedInUser c))"
  then have "filter (panel_matches uid (OrgId (SignedInUser c))) (library_panel s) = []"
    by (simp add: filter_empty_conv panel_matches_def)
  then show "deleteLibraryPanel memStore c uid s = (Some errLibraryPanelNotFound, s)"
    by (simp add: deleteLibraryPanel_def transactional_Background memStore_def
          store_Delete_library_panel_def)
next
  fix p
  assume a: "well_formed s \<and> p \<in> set (library_panel s) \<and> UID p = uid
             \<and> OrgID p = OrgId (SignedInUser c)"
  then have one: "filter (panel_matches uid (OrgId (SignedInUser c))) (library_panel s) = [p]"
    using store_lookup [of s p] by auto
  then have "filter (\<lambda>r. \<not> panel_matches uid (OrgId (SignedInUser c)) r) (library_panel s)
             = remove1 p (library_panel s)"
    by (rule filter_single_remove1)
  with one show "deleteLibraryPanel memStore c uid s
                   = (None, s\<lparr>library_panel := remove1 p (library_panel s)\<rparr>)"
    by (simp add: deleteLibraryPanel_def transactional_Background memStore_def
          store_Delete_library_panel_def)
qed

theorem deleteLibraryPanel_frame_witness:
  "deleteLibraryPanel memStore req ''gpu'' db = (Some errLibraryPanelNotFound, db)
   \<and> deleteLibraryPanel memStore req ''cpu'' db
     = (None, \<lparr>library_panel = [mem], library_panel_dashboard = [cpu_on_100], next_id = 3\<rparr>)
   \<and> LibraryPanelID cpu_on_100 = ID cpu
   \<and> deleteLibraryPanel memStore req ''cpu'' (db\<lparr>library_panel := [cpu, mem, cpu]\<rparr>)
     = (Some errLibraryPanelNotFound, db\<lparr>library_panel := [cpu, mem, cpu]\<rparr>)"
proof -
  note absent = deleteLibraryPanel_frame [of memStore req "''gpu''" db db,
      THEN conjunct2, THEN conjunct2, THEN conjunct1, rule_format]
  note present = deleteLibraryPanel_frame [of memStore req "''cpu''" db db,
      THEN conjunct2, THEN conjunct2, THEN conjunct2, rule_format, of cpu]
  note twice = deleteLibraryPanel_frame
      [of memStore req "''cpu''" "db\<lparr>library_panel := [cpu, mem, cpu]\<rparr>" db,
       THEN conjunct2, THEN conjunct1, THEN spec, of 2, THEN spec,
       of "db\<lparr>library_panel := [mem]\<rparr>", THEN mp]
  have "deleteLibraryPanel memStore req ''gpu'' db = (Some errLibraryPanelNotFound, db)"
    by (rule absent) (auto simp: db_def cpu_def mem_def)
  moreover have "deleteLibraryPanel memStore req ''cpu'' db
                   = (None, db\<lparr>library_panel := remove1 cpu (library_panel db)\<rparr>)"
    by (rule present) (simp add: well_formed_def db_def cpu_def mem_def req_def cpu_on_100_def)
  moreover have "deleteLibraryPanel memStore req ''cpu'' (db\<lparr>library_panel := [cpu, mem, cpu]\<rparr>)
     = (Some errLibraryPanelNotFound, db\<lparr>library_panel := [cpu, mem, cpu]\<rparr>)"
    by (rule trans [OF twice])
       (simp_all add: memStore_def store_Delete_library_panel_def panel_matches_def
          db_def cpu_def mem_def req_def)
  ultimately show ?thesis
    by (simp add: db_def cpu_def cpu_on_100_def)
qed

subsection \<open>Disconnect\<close>

lemma disconnect_found:
  "Find_library_panel lps uid (OrgId (SignedInUser c)) t = (Inr [p], t1)
   \<Longrightarrow> Delete_library_panel_dashboard lps (ID p) dashboardID t1 = (Inr (Inr n), t2)
   \<Longrightarrow> disconnectDashboard lps c uid dashboardID t
       = (if n = 1 then (None, t2) else (Some errLibraryPanelDashboardNotFound, t))"
  by (simp add: disconnectDashboard_def transactional_Background getLibraryPanel_found)

text \<open>
  C5. For every panel \<open>p\<close> the lookup finds, \<^verbatim>\<open>disconnectDashboard\<close> issues the \<^verbatim>\<open>DELETE\<close>
  on the join table with the key of \<open>p\<close> and the dashboard id; when the statement reports
  \<open>n\<close> affected rows the result is success with the statement's state for \<open>n = 1\<close> and
  \<open>errLibraryPanelDashboardNotFound\<close> with the database rolled back otherwise (so for
  \<open>n = 0\<close>). On the reference database, for an existing panel \<open>p\<close> of a well-formed
  state: when no connection row has the pair, the operation fails with
  \<open>errLibraryPanelDashboardNotFound\<close> and the database is unchanged; when a row \<open>r\<close> has
  it, the operation succeeds and removes \<open>r\<close> and nothing else.
\<close>

theorem disconnectDashboard_exactly_one:
  "(\<forall>p t1 n t2.
      Find_library_panel lps uid (OrgId (SignedInUser c)) t = (Inr [p], t1)
      \<and> Delete_library_panel_dashboard lps (ID p) dashboardID t1 = (Inr (Inr n), t2) \<longrightarrow>
      disconnectDashboard lps c uid dashboardID t
        = (if n = 1 then (None, t2) else (Some errLibraryPanelDashboardNotFound, t)))
   \<and> (\<forall>p. well_formed s \<and> p \<in> set (library_panel s) \<and> UID p = uid
            \<and> OrgID p = OrgId (SignedInUser c)
            \<and> (\<forall>r \<in> set (library_panel_dashboard s).
                  \<not> (LibraryPanelID r = ID p \<and> DashboardID r = dashboardID)) \<longrightarrow>
         disconnectDashboard memStore c uid dashboardID s
           = (Some errLibraryPanelDashboardNotFound, s))
   \<and> (\<forall>p r. well_formed s \<and> p \<in> set (library_panel s) \<and> UID p = uid
              \<and> OrgID p = OrgId (SignedInUser c)
              \<and> r \<in> set (library_panel_dashboard s)
              \<and> LibraryPanelID r = ID p \<and> DashboardID r = dashboardID \<longrightarrow>
         disconnectDashboard memStore c uid dashboardID s
           = (None, s\<lparr>library_panel_dashboard := remove1 r (library_panel_dashboard s)\<rparr>))"
proof (intro conjI allI impI)
  fix p t1 n t2
  assume "Find_library_panel lps uid (OrgId (SignedInUser c)) t = (Inr [p], t1)
          \<and> Delete_library_panel_dashboard lps (ID p) dashboardID t1 = (Inr (Inr n), t2)"
  then show "disconnectDashboard lps c uid dashboardID t
               = (if n = 1 then (None, t2) else (Some errLibraryPanelDashboardNotFound, t))"
    by (simp add: disconnect_found)
next
  fix p
  assume a: "well_formed s \<and> p \<in> set (library_panel s) \<and> UID p = uid
             \<and> OrgID p = OrgId (SignedInUser c)
             \<and> (\<forall>r \<in> set (library_panel_dashboard s).
                   \<not> (LibraryPanelID r = ID p \<and> DashboardID r = dashboardID))"
  then have find: "Find_library_panel memStore uid (OrgId (SignedInUser c)) s = (Inr [p], s)"
    by (simp add: store_match)
  from a have "filter (connection_matches (ID p) dashboardID) (library_panel_dashboard s) = []"
    by (simp add: filter_empty_conv connection_matches_def)
  then have "Delete_library_panel_dashboard memStore (ID p) dashboardID s = (Inr (Inr 0), s)"
    by (simp add: memStore_def store_Delete_library_panel_dashboard_def filter_empty_conv)
  with find show "disconnectDashboard memStore c uid dashboardID s
                    = (Some errLibraryPanelDashboardNotFound, s)"
    by (simp add: disconnect_found)
next
  fix p r
  assume a: "well_formed s \<and> p \<in> set (library_panel s) \<and> UID p = uid
             \<and> OrgID p = OrgId (SignedInUser c)
             \<and> r \<in> set (library_panel_dashboard s)
             \<and> LibraryPanelID r = ID p \<and> DashboardID r = dashboardID"
  then have find: "Find_library_panel memStore uid (OrgId (SignedInUser c)) s = (Inr [p], s)"
    by (simp add: store_match)
  from a have one:
    "filter (connection_matches (ID p) dashboardID) (library_panel_dashboard s) = [r]"
    using store_connection [of s r] by auto
  then have "filter (\<lambda>x. \<not> connection_matches (ID p) dashboardID x) (library_panel_dashboard s)
             = remove1 r (library_panel_dashboard s)"
    by (rule filter_single_remove1)
  with one have "Delete_library_panel_dashboard memStore (ID p) dashboardID s
        = (Inr (Inr 1), s\<lparr>library_panel_dashboard := remove1 r (library_panel_dashboard s)\<rparr>)"
    by (simp add: memStore_def store_Delete_library_panel_dashboard_def)
  with find show "disconnectDashboard memStore c uid dashboardID s
        = (None, s\<lparr>library_panel_dashboard := remove1 r (library_panel_dashboard s)\<rparr>)"
    by (simp add: disconnect_found)
qed

theorem disconnectDashboard_exactly_one_witness:
  "disconnectDashboard memStore req ''cpu'' 100 db
     = (None, \<lparr>library_panel = [cpu, mem], library_panel_dashboard = [], next_id = 3\<rparr>)
   \<and> disconnectDashboard memStore req ''cpu'' 100
       \<lparr>library_panel = [cpu, mem], library_panel_dashboard = [], next_id = 3\<rparr>
     = (Some errLibraryPanelDashboardNotFound,
        \<lparr>library_panel = [cpu, mem], library_panel_dashboard = [], next_id = 3\<rparr>)
   \<and> disconnectDashboard memStore req ''mem'' 100 db
     = (Some errLibraryPanelDashboardNotFound, db)
   \<and> disconnectDashboard memStore req ''cpu'' 100
       (db\<lparr>library_panel_dashboard := [cpu_on_100, cpu_on_100]\<rparr>)
     = (Some errLibraryPanelDashboardNotFound,
        db\<lparr>library_panel_dashboard := [cpu_on_100, cpu_on_100]\<rparr>)"
proof -
  note connected = disconnectDashboard_exactly_one [of memStore "''cpu''" req db 100 db,
      THEN conjunct2, THEN conjunct2, rule_format, of cpu cpu_on_100]
  note again = disconnectDashboard_exactly_one [of memStore "''cpu''" req
      "\<lparr>library_panel = [cpu, mem], library_panel_dashboard = [], next_id = 3\<rparr>" 100
      "\<lparr>library_panel = [cpu, mem], library_panel_dashboard = [], next_id = 3\<rparr>",
      THEN conjunct2, THEN conjunct1, THEN spec, THEN mp, of cpu]
  note never = disconnectDashboard_exactly_one [of memStore "''mem''" req db 100 db,
      THEN conjunct2, THEN conjunct1, THEN spec, THEN mp, of mem]
  let ?twice = "db\<lparr>library_panel_dashboard := [cpu_on_100, cpu_on_100]\<rparr>"
  note doubled = disconnectDashboard_exactly_one [of memStore "''cpu''" req ?twice 100 db,
      THEN conjunct1, THEN spec, of cpu, THEN spec, of ?twice, THEN spec, of 2, THEN spec,
      of "db\<lparr>library_panel_dashboard := []\<rparr>", THEN mp]
  have "disconnectDashboard memStore req ''cpu'' 100 db
          = (None, db\<lparr>library_panel_dashboard := remove1 cpu_on_100 (library_panel_dashboard db)\<rparr>)"
    by (rule connected) (simp add: well_formed_def db_def cpu_def mem_def req_def cpu_on_100_def)
  moreover have "disconnectDashboard memStore req ''cpu'' 100
       \<lparr>library_panel = [cpu, mem], library_panel_dashboard = [], next_id = 3\<rparr>
     = (Some errLibraryPanelDashboardNotFound,
        \<lparr>library_panel = [cpu, mem], library_panel_dashboard = [], next_id = 3\<rparr>)"
    by (rule again) (simp add: well_formed_def cpu_def mem_def req_def)
  moreover have "disconnectDashboard memStore req ''mem'' 100 db
     = (Some errLibraryPanelDashboardNotFound, db)"
    by (rule never) (simp add: well_formed_def db_def cpu_def mem_def req_def cpu_on_100_def)
  moreover have "disconnectDashboard memStore req ''cpu'' 100 ?twice
     = (Some errLibraryPanelDashboardNotFound, ?twice)"
    by (rule trans [OF doubled])
       (simp_all add: memStore_def store_Delete_library_panel_dashboard_def panel_matches_def
          connection_matches_def db_def cpu_def mem_def req_def cpu_on_100_def)
  ultimately show ?thesis
    by (simp add: db_def)
qed

subsection \<open>Connect\<close>

lemma connect_found:
  "Find_library_panel lps uid (OrgId (SignedInUser c)) t = (Inr [p], t1)
   \<Longrightarrow> connectDashboard lps now c uid dashboardID t
       = (case Insert_library_panel_dashboard lps
                 \<lparr>DashboardID = dashboardID, LibraryPanelID = ID p, lpd_Created = now,
                  lpd_CreatedBy = UserId (SignedInUser c)\<rparr> t1 of
            (Inl e, t2) \<Rightarrow>
              if IsUniqueConstraintViolation lps e then (None, t2)
              else (Some (sessionError e), t)
          | (Inr n, t2) \<Rightarrow> (None, t2))"
  by (simp add: connectDashboard_def transactional_Background getLibraryPanel_found
        split: prod.splits sum.splits)

lemma store_connect:
  assumes "well_formed s" and "p \<in> set (library_panel s)" and "UID p = uid"
    and "OrgID p = OrgId (SignedInUser c)"
  shows "connectDashboard memStore now c uid dashboardID s
         = (None,
            if \<exists>r \<in> set (library_panel_dashboard s).
                 LibraryPanelID r = ID p \<and> DashboardID r = dashboardID
            then s
            else s\<lparr>library_panel_dashboard := library_panel_dashboard s @
                     [\<lparr>DashboardID = dashboardID, LibraryPanelID = ID p, lpd_Created = now,
                       lpd_CreatedBy = UserId (SignedInUser c)\<rparr>]\<rparr>)"
proof -
  have "Find_library_panel memStore uid (OrgId (SignedInUser c)) s = (Inr [p], s)"
    using assms by (simp add: store_match)
  then show ?thesis
    by (simp add: connect_found)
       (auto simp: memStore_def store_Insert_library_panel_dashboard_def list_ex_iff
          connection_matches_def)
qed

text \<open>
  C2. For every panel \<open>p\<close> the lookup finds: when the insert of the connection row for
  the key of \<open>p\<close> and the dashboard id answers with an error the dialect classifies as a
  uniqueness violation, \<^verbatim>\<open>connectDashboard\<close> returns no error. On the reference database,
  for an existing panel \<open>p\<close> of a well-formed state: when a row for the pair is already
  stored the operation succeeds and leaves the database as it was; and two calls in a
  row for the same pair (by callers of the same organization, at any two times) both
  succeed, the second changes nothing, and afterwards exactly one stored connection row
  has the pair.
\<close>

theorem connectDashboard_idempotent:
  "(\<forall>p t1 e t2.
      Find_library_panel lps uid (OrgId (SignedInUser c)) t = (Inr [p], t1)
      \<and> Insert_library_panel_dashboard lps
           \<lparr>DashboardID = dashboardID, LibraryPanelID = ID p, lpd_Created = now,
            lpd_CreatedBy = UserId (SignedInUser c)\<rparr> t1 = (Inl e, t2)
      \<and> IsUniqueConstraintViolation lps e \<longrightarrow>
      connectDashboard lps now c uid dashboardID t = (None, t2))
   \<and> (\<forall>p. well_formed s \<and> p \<in> set (library_panel s) \<and> UID p = uid
            \<and> OrgID p = OrgId (SignedInUser c)
            \<and> (\<exists>r \<in> set (library_panel_dashboard s).
                  LibraryPanelID r = ID p \<and> DashboardID r = dashboardID) \<longrightarrow>
         connectDashboard memStore now c uid dashboardID s = (None, s))
   \<and> (\<forall>p. well_formed s \<and> p \<in> set (library_panel s) \<and> UID p = uid
            \<and> OrgID p = OrgId (SignedInUser c)
            \<and> OrgId (SignedInUser c') = OrgId (SignedInUser c) \<longrightarrow>
         (\<exists>s1. connectDashboard memStore now c uid dashboardID s = (None, s1)
             \<and> connectDashboard memStore now' c' uid dashboardID s1 = (None, s1)
             \<and> length (filter (\<lambda>r. LibraryPanelID r = ID p \<and> DashboardID r = dashboardID)
                         (library_panel_dashboard s1)) = 1
             \<and> library_panel s1 = library_panel s
             \<and> well_formed s1))"
proof (intro conjI allI impI)
  fix p t1 e t2
  assume "Find_library_panel lps uid (OrgId (SignedInUser c)) t = (Inr [p], t1)
      \<and> Insert_library_panel_dashboard lps
           \<lparr>DashboardID = dashboardID, LibraryPanelID = ID p, lpd_Created = now,
            lpd_CreatedBy = UserId (SignedInUser c)\<rparr> t1 = (Inl e, t2)
      \<and> IsUniqueConstraintViolation lps e"
  then show "connectDashboard lps now c uid dashboardID t = (None, t2)"
    by (simp add: connect_found)
next
  fix p
  assume "well_formed s \<and> p \<in> set (library_panel s) \<and> UID p = uid
            \<and> OrgID p = OrgId (SignedInUser c)
            \<and> (\<exists>r \<in> set (library_panel_dashboard s).
                  LibraryPanelID r = ID p \<and> DashboardID r = dashboardID)"
  then show "connectDashboard memStore now c uid dashboardID s = (None, s)"
    using store_connect [of s p uid c now dashboardID] by simp
next
  fix p
  assume a: "well_formed s \<and> p \<in> set (library_panel s) \<and> UID p = uid
            \<and> OrgID p = OrgId (SignedInUser c)
            \<and> OrgId (SignedInUser c') = OrgId (SignedInUser c)"
  let ?pair = "\<lambda>r. LibraryPanelID r = ID p \<and> DashboardID r = dashboardID"
  let ?row = "\<lparr>DashboardID = dashboardID, LibraryPanelID = ID p, lpd_Created = now,
               lpd_CreatedBy = UserId (SignedInUser c)\<rparr>"
  define s1 where "s1 = (if \<exists>r \<in> set (library_panel_dashboard s). ?pair r then s
                         else s\<lparr>library_panel_dashboard := library_panel_dashboard s @ [?row]\<rparr>)"
  have first: "connectDashboard memStore now c uid dashboardID s = (None, s1)"
    using a store_connect [of s p uid c now dashboardID] by (simp add: s1_def)
  have panels: "library_panel s1 = library_panel s"
    by (simp add: s1_def)
  have wf1: "well_formed s1"
    using a by (auto simp: s1_def well_formed_def)
  have has: "\<exists>r \<in> set (library_panel_dashboard s1). ?pair r"
    by (auto simp: s1_def)
  have second: "connectDashboard memStore now' c' uid dashboardID s1 = (None, s1)"
    using a wf1 panels has store_connect [of s1 p uid c' now' dashboardID] by simp
  from has obtain r where r: "r \<in> set (library_panel_dashboard s1)" "?pair r"
    by blast
  then have "filter (connection_matches (ID p) dashboardID) (library_panel_dashboard s1) = [r]"
    using wf1 store_connection [of s1 r] by simp
  then have "length (filter ?pair (library_panel_dashboard s1)) = 1"
    by (simp add: connection_matches_fields)
  with first second panels wf1
  show "\<exists>s1. connectDashboard memStore now c uid dashboardID s = (None, s1)
             \<and> connectDashboard memStore now' c' uid dashboardID s1 = (None, s1)
             \<and> length (filter ?pair (library_panel_dashboard s1)) = 1
             \<and> library_panel s1 = library_panel s
             \<and> well_formed s1"
    by blast
qed

theorem connectDashboard_idempotent_witness:
  "connectDashboard memStore 30 req ''cpu'' 100 db = (None, db)
   \<and> connectDashboard memStore 31 req ''cpu'' 100 db = (None, db)
   \<and> connectDashboard memStore 30 req ''mem'' 9 db = (None, db_mem_on_9)
   \<and> connectDashboard memStore 31 req ''mem'' 9 db_mem_on_9 = (None, db_mem_on_9)
   \<and> library_panel_dashboard db_mem_on_9
     = [cpu_on_100,
        \<lparr>DashboardID = 9, LibraryPanelID = 2, lpd_Created = 30, lpd_CreatedBy = 42\<rparr>]"
proof -
  have wf: "well_formed db"
    by (simp add: well_formed_def db_def cpu_def mem_def cpu_on_100_def)
  have "connectDashboard memStore 30 req ''cpu'' 100 db = (None, db)"
    by (rule connectDashboard_idempotent [of memStore "''cpu''" req db 100 30 db req 31,
          THEN conjunct1, THEN spec, of cpu, THEN spec, of db, THEN spec, of UniqueViolation,
          THEN spec, of db, THEN mp])
       (simp add: memStore_def store_Insert_library_panel_dashboard_def panel_matches_def
          connection_matches_def db_def cpu_def mem_def req_def cpu_on_100_def)
  moreover have "connectDashboard memStore 31 req ''cpu'' 100 db = (None, db)"
    by (rule connectDashboard_idempotent [of memStore "''cpu''" req db 100 31 db req 31,
          THEN conjunct2, THEN conjunct1, THEN spec, THEN mp, of cpu])
       (simp add: wf, simp add: db_def cpu_def mem_def req_def cpu_on_100_def)
  moreover
  from connectDashboard_idempotent [of memStore "''mem''" req db 9 30 db req 31,
      THEN conjunct2, THEN conjunct2, THEN spec, THEN mp, of mem]
  obtain s1 where first: "connectDashboard memStore 30 req ''mem'' 9 db = (None, s1)"
    and second: "connectDashboard memStore 31 req ''mem'' 9 s1 = (None, s1)"
    by (auto simp: wf) (auto simp: db_def mem_def req_def)
  have "connectDashboard memStore 30 req ''mem'' 9 db = (None, db_mem_on_9)"
    using store_connect [of db mem "''mem''" req 30 9] wf
    by (simp add: db_def mem_def cpu_def req_def cpu_on_100_def db_mem_on_9_def)
  with first have "s1 = db_mem_on_9"
    by simp
  with first second
  have "connectDashboard memStore 30 req ''mem'' 9 db = (None, db_mem_on_9)
        \<and> connectDashboard memStore 31 req ''mem'' 9 db_mem_on_9 = (None, db_mem_on_9)"
    by simp
  ultimately show ?thesis
    by (simp add: db_mem_on_9_def)
qed

subsection \<open>The relationship operations resolve the panel first\<close>

lemma disconnect_resolved:
  "Find_library_panel lps uid (OrgId (SignedInUser c)) t = (Inr [p], t1)
   \<Longrightarrow> disconnectDashboard lps c uid dashboardID t
       = (case Delete_library_panel_dashboard lps (ID p) dashboardID t1 of
            (Inl e, t2) \<Rightarrow> (Some (sessionError e), t)
          | (Inr (Inl e), t2) \<Rightarrow> (Some (sessionError e), t)
          | (Inr (Inr n), t2) \<Rightarrow>
              if n = 1 then (None, t2) else (Some errLibraryPanelDashboardNotFound, t))"
  by (simp add: disconnectDashboard_def transactional_Background getLibraryPanel_found
        split: prod.splits sum.splits)

lemma list_resolved:
  "Find_library_panel lps uid (OrgId (SignedInUser c)) t = (Inr [p], t1)
   \<Longrightarrow> getConnectedDashboards lps c uid t
       = (case Find_library_panel_dashboard lps (ID p) t1 of
            (Inl e, t2) \<Rightarrow> (([], Some (sessionError e)), t2)
          | (Inr rows, t2) \<Rightarrow> ((map DashboardID rows, None), t2))"
  by (simp add: getConnectedDashboards_def plain_Background getLibraryPanel_found range_loop
        split: prod.splits sum.splits)

lemma unresolved:
  assumes "Find_library_panel lps uid (OrgId (SignedInUser c)) t = (Inr [], t1)"
  shows "connectDashboard lps now c uid dashboardID t = (Some errLibraryPanelNotFound, t)"
    and "disconnectDashboard lps c uid dashboardID t = (Some errLibraryPanelNotFound, t)"
    and "getConnectedDashboards lps c uid t = (([], Some errLibraryPanelNotFound), t1)"
  using assms
  by (simp_all add: connectDashboard_def disconnectDashboard_def getConnectedDashboards_def
        transactional_Background plain_Background getLibraryPanel_none)

text \<open>
  C7. \<^verbatim>\<open>connectDashboard\<close>, \<^verbatim>\<open>disconnectDashboard\<close> and \<^verbatim>\<open>getConnectedDashboards\<close> start with
  the lookup of the panel by \<open>uid\<close> and the caller's organization. When the lookup
  answers no row, each fails with \<open>errLibraryPanelNotFound\<close>; the two writers leave the
  database in the state they started from, the reader in the state the lookup left. On
  the reference database, when no panel has the \<open>uid\<close> in the organization, the three
  fail with \<open>errLibraryPanelNotFound\<close> and the database, its connection table included,
  is unchanged. When the lookup answers one row \<open>p\<close>, the statement on the join table is
  issued after it, in the state the lookup left and with the key of \<open>p\<close>, and decides the
  result.
\<close>

theorem relationship_operations_resolve_first:
  "(\<forall>t1. Find_library_panel lps uid (OrgId (SignedInUser c)) t = (Inr [], t1) \<longrightarrow>
      connectDashboard lps now c uid dashboardID t = (Some errLibraryPanelNotFound, t)
      \<and> disconnectDashboard lps c uid dashboardID t = (Some errLibraryPanelNotFound, t)
      \<and> getConnectedDashboards lps c uid t = (([], Some errLibraryPanelNotFound), t1))
   \<and> ((\<forall>p \<in> set (library_panel s). \<not> (UID p = uid \<and> OrgID p = OrgId (SignedInUser c))) \<longrightarrow>
      connectDashboard memStore now c uid dashboardID s = (Some errLibraryPanelNotFound, s)
      \<and> disconnectDashboard memStore c uid dashboardID s = (Some errLibraryPanelNotFound, s)
      \<and> getConnectedDashboards memStore c uid s = (([], Some errLibraryPanelNotFound), s))
   \<and> (\<forall>p t1. Find_library_panel lps uid (OrgId (SignedInUser c)) t = (Inr [p], t1) \<longrightarrow>
      connectDashboard lps now c uid dashboardID t
        = (case Insert_library_panel_dashboard lps
                  \<lparr>DashboardID = dashboardID, LibraryPanelID = ID p, lpd_Created = now,
                   lpd_CreatedBy = UserId (SignedInUser c)\<rparr> t1 of
             (Inl e, t2) \<Rightarrow>
               if IsUniqueConstraintViolation lps e then (None, t2)
               else (Some (sessionError e), t)
           | (Inr n, t2) \<Rightarrow> (None, t2))
      \<and> disconnectDashboard lps c uid dashboardID t
        = (case Delete_library_panel_dashboard lps (ID p) dashboardID t1 of
             (Inl e, t2) \<Rightarrow> (Some (sessionError e), t)
           | (Inr (Inl e), t2) \<Rightarrow> (Some (sessionError e), t)
           | (Inr (Inr n), t2) \<Rightarrow>
               if n = 1 then (None, t2) else (Some errLibraryPanelDashboardNotFound, t))
      \<and> getConnectedDashboards lps c uid t
        = (case Find_library_panel_dashboard lps (ID p) t1 of
             (Inl e, t2) \<Rightarrow> (([], Some (sessionError e)), t2)
           | (Inr rows, t2) \<Rightarrow> ((map DashboardID rows, None), t2)))"
proof (intro conjI allI impI)
  fix t1
  assume none: "Find_library_panel lps uid (OrgId (SignedInUser c)) t = (Inr [], t1)"
  show "connectDashboard lps now c uid dashboardID t = (Some errLibraryPanelNotFound, t)"
    using none by (rule unresolved)
  show "disconnectDashboard lps c uid dashboardID t = (Some errLibraryPanelNotFound, t)"
    using none by (rule unresolved)
  show "getConnectedDashboards lps c uid t = (([], Some errLibraryPanelNotFound), t1)"
    using none by (rule unresolved)
next
  assume "\<forall>p \<in> set (library_panel s). \<not> (UID p = uid \<and> OrgID p = OrgId (SignedInUser c))"
  then have none: "Find_library_panel memStore uid (OrgId (SignedInUser c)) s = (Inr [], s)"
    by (rule store_no_match)
  show "connectDashboard memStore now c uid dashboardID s = (Some errLibraryPanelNotFound, s)"
    using none by (rule unresolved)
  show "disconnectDashboard memStore c uid dashboardID s = (Some errLibraryPanelNotFound, s)"
    using none by (rule unresolved)
  show "getConnectedDashboards memStore c uid s = (([], Some errLibraryPanelNotFound), s)"
    using none by (rule unresolved)
next
  fix p t1
  assume one: "Find_library_panel lps uid (OrgId (SignedInUser c)) t = (Inr [p], t1)"
  show "connectDashboard lps now c uid dashboardID t
        = (case Insert_library_panel_dashboard lps
                  \<lparr>DashboardID = dashboardID, LibraryPanelID = ID p, lpd_Created = now,
                   lpd_CreatedBy = UserId (SignedInUser c)\<rparr> t1 of
             (Inl e, t2) \<Rightarrow>
               if IsUniqueConstraintViolation lps e then (None, t2)
               else (Some (sessionError e), t)
           | (Inr n, t2) \<Rightarrow> (None, t2))"
    using one by (rule connect_found)
  show "disconnectDashboard lps c uid dashboardID t
        = (case Delete_library_panel_dashboard lps (ID p) dashboardID t1 of
             (Inl e, t2) \<Rightarrow> (Some (sessionError e), t)
           | (Inr (Inl e), t2) \<Rightarrow> (Some (sessionError e), t)
           | (Inr (Inr n), t2) \<Rightarrow>
               if n = 1 then (None, t2) else (Some errLibraryPanelDashboardNotFound, t))"
    using one by (rule disconnect_resolved)
  show "getConnectedDashboards lps c uid t
        = (case Find_library_panel_dashboard lps (ID p) t1 of
             (Inl e, t2) \<Rightarrow> (([], Some (sessionError e)), t2)
           | (Inr rows, t2) \<Rightarrow> ((map DashboardID rows, None), t2))"
    using one by (rule list_resolved)
qed

theorem relationship_operations_resolve_first_witness:
  "connectDashboard memStore 30 req ''gpu'' 100 db = (Some errLibraryPanelNotFound, db)
   \<and> disconnectDashboard memStore req ''gpu'' 100 db = (Some errLibraryPanelNotFound, db)
   \<and> getConnectedDashboards memStore req ''gpu'' db = (([], Some errLibraryPanelNotFound), db)
   \<and> connectDashboard memStore 30 req ''disk'' 100 db = (Some errLibraryPanelNotFound, db)
   \<and> disconnectDashboard memStore req ''disk'' 100 db = (Some errLibraryPanelNotFound, db)
   \<and> getConnectedDashboards memStore req ''disk'' db = (([], Some errLibraryPanelNotFound), db)
   \<and> getConnectedDashboards memStore req ''cpu'' db = (([100], None), db)"
proof -
  have "Find_library_panel memStore ''gpu'' (OrgId (SignedInUser req)) db = (Inr [], db)"
    by (simp add: store_find db_def cpu_def mem_def req_def panel_matches_def)
  with relationship_operations_resolve_first [of memStore "''gpu''" req db 30 100 db,
      THEN conjunct1, THEN spec, of db]
  have "connectDashboard memStore 30 req ''gpu'' 100 db = (Some errLibraryPanelNotFound, db)
   \<and> disconnectDashboard memStore req ''gpu'' 100 db = (Some errLibraryPanelNotFound, db)
   \<and> getConnectedDashboards memStore req ''gpu'' db = (([], Some errLibraryPanelNotFound), db)"
    by (rule mp)
  moreover
  have "\<forall>p \<in> set (library_panel db). \<not> (UID p = ''disk'' \<and> OrgID p = OrgId (SignedInUser req))"
    by (simp add: db_def cpu_def mem_def)
  with relationship_operations_resolve_first [of memStore "''disk''" req db 30 100 db,
      THEN conjunct2, THEN conjunct1]
  have "connectDashboard memStore 30 req ''disk'' 100 db = (Some errLibraryPanelNotFound, db)
   \<and> disconnectDashboard memStore req ''disk'' 100 db = (Some errLibraryPanelNotFound, db)
   \<and> getConnectedDashboards memStore req ''disk'' db = (([], Some errLibraryPanelNotFound), db)"
    by (rule mp)
  moreover
  have "Find_library_panel memStore ''cpu'' (OrgId (SignedInUser req)) db = (Inr [cpu], db)"
    by (simp add: store_find db_def cpu_def mem_def req_def panel_matches_def)
  with relationship_operations_resolve_first [of memStore "''cpu''" req db 30 100 db,
      THEN conjunct2, THEN conjunct2, THEN spec, of cpu, THEN spec, of db]
  have "getConnectedDashboards memStore req ''cpu'' db
        = (case Find_library_panel_dashboard memStore (ID cpu) db of
             (Inl e, t2) \<Rightarrow> (([], Some (sessionError e)), t2)
           | (Inr rows, t2) \<Rightarrow> ((map DashboardID rows, None), t2))"
    by blast
  then have "getConnectedDashboards memStore req ''cpu'' db = (([100], None), db)"
    by (simp add: memStore_def db_def cpu_def cpu_on_100_def)
  ultimately show ?thesis
    by simp
qed

subsection \<open>Patch\<close>

lemma patch_found:
  "Find_library_panel lps uid (OrgId (SignedInUser c)) t = (Inr [p], t1)
   \<Longrightarrow> patchLibraryPanel lps now c cmd uid t
       = (case Update_library_panel lps (ID p) (patchLibraryPanel_libraryPanel now c cmd uid p) t1 of
            (Inl e, t2) \<Rightarrow>
              ((patchLibraryPanel_libraryPanel now c cmd uid p,
                Some (if IsUniqueConstraintViolation lps e then errLibraryPanelAlreadyExists
                      else sessionError e)), t)
          | (Inr n, t2) \<Rightarrow>
              if n = 1 then ((patchLibraryPanel_libraryPanel now c cmd uid p, None), t2)
              else ((patchLibraryPanel_libraryPanel now c cmd uid p,
                     Some errLibraryPanelNotFound), t))"
  by (simp add: patchLibraryPanel_def transactional_Background getLibraryPanel_found
        split: prod.splits sum.splits)

lemma patched_fields:
  "ID (patchLibraryPanel_libraryPanel now c cmd uid p) = ID p"
  "OrgID (patchLibraryPanel_libraryPanel now c cmd uid p) = OrgId (SignedInUser c)"
  "UID (patchLibraryPanel_libraryPanel now c cmd uid p) = uid"
  "Created (patchLibraryPanel_libraryPanel now c cmd uid p) = Created p"
  "CreatedBy (patchLibraryPanel_libraryPanel now c cmd uid p) = CreatedBy p"
  "Updated (patchLibraryPanel_libraryPanel now c cmd uid p) = now"
  "UpdatedBy (patchLibraryPanel_libraryPanel now c cmd uid p) = UserId (SignedInUser c)"
  "FolderID (patchLibraryPanel_libraryPanel now c cmd uid p)
     = (if patch_FolderID cmd \<noteq> 0 then patch_FolderID cmd else FolderID p)"
  "Name (patchLibraryPanel_libraryPanel now c cmd uid p)
     = (if patch_Name cmd \<noteq> [] then patch_Name cmd else Name p)"
  "Model (patchLibraryPanel_libraryPanel now c cmd uid p)
     = (if patch_Model cmd \<noteq> None then patch_Model cmd else Model p)"
  by (simp_all add: patchLibraryPanel_libraryPanel_def Let_def)

lemma store_update:
  assumes wf: "well_formed s" and p: "p \<in> set (library_panel s)"
    and key: "ID m = ID p" and uid: "UID m = UID p"
  shows "Update_library_panel memStore (ID p) m s
         = (Inr 1, s\<lparr>library_panel := map (\<lambda>r. if ID r = ID p then m else r) (library_panel s)\<rparr>)"
proof -
  let ?xs = "library_panel s"
  let ?after = "map (\<lambda>r. if ID r = ID p then m else r) ?xs"
  have "filter (\<lambda>r. ID r = ID p) ?xs = [p]"
    using wf p by (intro filter_key_single [where f = ID and Q = "\<lambda>r. True"])
                  (auto simp: well_formed_def)
  then have rows: "length (filter (\<lambda>r. ID r = ID p) ?xs) = 1"
    by simp
  have "inj_on ID (set ?xs)"
    using wf by (simp add: well_formed_def distinct_map)
  then have same: "\<forall>r \<in> set ?xs. ID r = ID p \<longrightarrow> r = p"
    using p by (auto dest: inj_onD)
  have eq: "map UID ?after = map UID ?xs"
    using same uid by auto
  have "distinct (map UID ?xs)"
    using wf by (simp add: well_formed_def)
  then have "distinct (map UID ?after)"
    by (simp only: eq)
  then have "length (filter (\<lambda>r. UID r = UID m) ?after) \<le> 1"
    by (rule filter_key_at_most_one)
  then show ?thesis
    using rows by (simp add: memStore_def store_Update_library_panel_def Let_def)
qed

lemma store_patch:
  assumes "well_formed s" and "p \<in> set (library_panel s)" and "UID p = uid"
    and "OrgID p = OrgId (SignedInUser c)"
  shows "patchLibraryPanel memStore now c cmd uid s
         = ((patchLibraryPanel_libraryPanel now c cmd uid p, None),
            s\<lparr>library_panel :=
                 map (\<lambda>r. if ID r = ID p then patchLibraryPanel_libraryPanel now c cmd uid p else r)
                   (library_panel s)\<rparr>)"
proof -
  have "Find_library_panel memStore uid (OrgId (SignedInUser c)) s = (Inr [p], s)"
    using assms by (simp add: store_match)
  moreover have "Update_library_panel memStore (ID p) (patchLibraryPanel_libraryPanel now c cmd uid p) s
         = (Inr 1, s\<lparr>library_panel :=
                 map (\<lambda>r. if ID r = ID p then patchLibraryPanel_libraryPanel now c cmd uid p else r)
                   (library_panel s)\<rparr>)"
    using assms by (intro store_update) (simp_all add: patched_fields)
  ultimately show ?thesis
    by (simp add: patch_found)
qed

text \<open>
  C1. For every panel \<open>p\<close> the lookup finds, the row \<open>m\<close> that \<^verbatim>\<open>patchLibraryPanel\<close> builds
  takes the folder id, the name and the model from the command where the command's value
  is not the zero value (folder id \<open>0\<close>, empty name, \<^verbatim>\<open>nil\<close> model) and from \<open>p\<close> otherwise.
  The update is issued under the key of \<open>p\<close> with \<open>m\<close>; when it reports \<open>n\<close> affected rows
  the operation returns \<open>m\<close> with no error and the update's state for \<open>n = 1\<close>, and \<open>m\<close>
  with \<open>errLibraryPanelNotFound\<close> and the database rolled back otherwise (so for
  \<open>n = 0\<close>). On the reference database, for an existing panel \<open>p\<close> of a well-formed
  state, the operation succeeds, returns \<open>m\<close>, and the new state is the old one with \<open>m\<close>
  stored in place of the row with the key of \<open>p\<close>.
\<close>

theorem patchLibraryPanel_merges:
  "(\<forall>p t1. Find_library_panel lps uid (OrgId (SignedInUser c)) t = (Inr [p], t1) \<longrightarrow>
      (let m = patchLibraryPanel_libraryPanel now c cmd uid p in
         FolderID m = (if patch_FolderID cmd \<noteq> 0 then patch_FolderID cmd else FolderID p)
         \<and> Name m = (if patch_Name cmd \<noteq> [] then patch_Name cmd else Name p)
         \<and> Model m = (if patch_Model cmd \<noteq> None then patch_Model cmd else Model p)
         \<and> (\<forall>n t2. Update_library_panel lps (ID p) m t1 = (Inr n, t2) \<longrightarrow>
               patchLibraryPanel lps now c cmd uid t
                 = (if n = 1 then ((m, None), t2)
                    else ((m, Some errLibraryPanelNotFound), t)))))
   \<and> (\<forall>p. well_formed s \<and> p \<in> set (library_panel s) \<and> UID p = uid
            \<and> OrgID p = OrgId (SignedInUser c) \<longrightarrow>
      (let m = patchLibraryPanel_libraryPanel now c cmd uid p in
         patchLibraryPanel memStore now c cmd uid s
           = ((m, None),
              s\<lparr>library_panel :=
                   map (\<lambda>r. if ID r = ID p then m else r) (library_panel s)\<rparr>)))"
proof (intro conjI allI impI)
  fix p t1
  assume "Find_library_panel lps uid (OrgId (SignedInUser c)) t = (Inr [p], t1)"
  then show "let m = patchLibraryPanel_libraryPanel now c cmd uid p in
         FolderID m = (if patch_FolderID cmd \<noteq> 0 then patch_FolderID cmd else FolderID p)
         \<and> Name m = (if patch_Name cmd \<noteq> [] then patch_Name cmd else Name p)
         \<and> Model m = (if patch_Model cmd \<noteq> None then patch_Model cmd else Model p)
         \<and> (\<forall>n t2. Update_library_panel lps (ID p) m t1 = (Inr n, t2) \<longrightarrow>
               patchLibraryPanel lps now c cmd uid t
                 = (if n = 1 then ((m, None), t2)
                    else ((m, Some errLibraryPanelNotFound), t)))"
    unfolding Let_def by (intro conjI allI impI) (simp_all only: patched_fields, simp add: patch_found)
next
  fix p
  assume "well_formed s \<and> p \<in> set (library_panel s) \<and> UID p = uid
            \<and> OrgID p = OrgId (SignedInUser c)"
  then show "let m = patchLibraryPanel_libraryPanel now c cmd uid p in
         patchLibraryPanel memStore now c cmd uid s
           = ((m, None),
              s\<lparr>library_panel :=
                   map (\<lambda>r. if ID r = ID p then m else r) (library_panel s)\<rparr>)"
    unfolding Let_def by (simp add: store_patch)
qed

theorem patchLibraryPanel_merges_witness:
  "patchLibraryPanel memStore 50 req rename ''cpu'' db
     = ((cpu_renamed, None),
        \<lparr>library_panel = [cpu_renamed, mem], library_panel_dashboard = [cpu_on_100],
         next_id = 3\<rparr>)
   \<and> patchLibraryPanel (memStore\<lparr>Update_library_panel := (\<lambda>key bean s. (Inr 0, s))\<rparr>)
       50 req rename ''cpu'' db
     = ((cpu_renamed, Some errLibraryPanelNotFound), db)"
proof -
  have m: "patchLibraryPanel_libraryPanel 50 req rename ''cpu'' cpu = cpu_renamed"
    by (simp add: patchLibraryPanel_libraryPanel_def req_def rename_def cpu_def cpu_renamed_def)
  have "well_formed db \<and> cpu \<in> set (library_panel db) \<and> UID cpu = ''cpu''
        \<and> OrgID cpu = OrgId (SignedInUser req)"
    by (simp add: well_formed_def db_def cpu_def mem_def req_def cpu_on_100_def)
  with patchLibraryPanel_merges [of memStore "''cpu''" req db 50 rename db,
         THEN conjunct2, THEN spec, of cpu]
  have "patchLibraryPanel memStore 50 req rename ''cpu'' db
     = ((cpu_renamed, None),
        db\<lparr>library_panel := map (\<lambda>r. if ID r = ID cpu then cpu_renamed else r) (library_panel db)\<rparr>)"
    by (simp add: Let_def m)
  then have stored: "patchLibraryPanel memStore 50 req rename ''cpu'' db
     = ((cpu_renamed, None),
        \<lparr>library_panel = [cpu_renamed, mem], library_panel_dashboard = [cpu_on_100],
         next_id = 3\<rparr>)"
    by (simp add: db_def cpu_def mem_def)
  let ?gone = "memStore\<lparr>Update_library_panel := (\<lambda>key bean s. (Inr 0, s))\<rparr>"
  have "Find_library_panel ?gone ''cpu'' (OrgId (SignedInUser req)) db = (Inr [cpu], db)"
    by (simp add: memStore_def db_def cpu_def mem_def req_def panel_matches_def)
  with patchLibraryPanel_merges [of ?gone "''cpu''" req db 50 rename db,
         THEN conjunct1, THEN spec, of cpu, THEN spec, of db]
  have "patchLibraryPanel ?gone 50 req rename ''cpu'' db
          = ((cpu_renamed, Some errLibraryPanelNotFound), db)"
    by (simp add: Let_def m)
  with stored show ?thesis
    by simp
qed

lemma patch_returns:
  "Find_library_panel lps uid (OrgId (SignedInUser c)) t = (Inr [p], t1)
   \<Longrightarrow> fst (fst (patchLibraryPanel lps now c cmd uid t))
       = patchLibraryPanel_libraryPanel now c cmd uid p"
  by (simp add: patch_found split: prod.splits sum.splits)

lemma patched_unset:
  "patch_FolderID cmd = 0 \<Longrightarrow> patch_Name cmd = [] \<Longrightarrow> patch_Model cmd = None
   \<Longrightarrow> UID p = uid \<Longrightarrow> OrgID p = OrgId (SignedInUser c)
   \<Longrightarrow> patchLibraryPanel_libraryPanel now c cmd uid p
       = p\<lparr>Updated := now, UpdatedBy := UserId (SignedInUser c)\<rparr>"
  by (simp add: patchLibraryPanel_libraryPanel_def Let_def)

lemma store_update_key:
  assumes "well_formed s" and "p \<in> set (library_panel s)" and "ID m = ID p"
  shows "filter (\<lambda>r. ID r = ID p) (map (\<lambda>r. if ID r = ID p then m else r) (library_panel s)) = [m]"
proof -
  have "filter (\<lambda>r. ID r = ID p) (library_panel s) = [p]"
    using assms by (intro filter_key_single [where f = ID and Q = "\<lambda>r. True"])
                   (auto simp: well_formed_def)
  moreover have "(\<lambda>r. ID r = ID p) \<circ> (\<lambda>r. if ID r = ID p then m else r) = (\<lambda>r. ID r = ID p)"
    using assms by (auto simp: fun_eq_iff)
  ultimately show ?thesis
    by (simp add: filter_map)
qed

lemma store_update_well_formed:
  assumes wf: "well_formed s" and p: "p \<in> set (library_panel s)"
    and key: "ID m = ID p" and uid: "UID m = UID p"
  shows "well_formed
           (s\<lparr>library_panel := map (\<lambda>r. if ID r = ID p then m else r) (library_panel s)\<rparr>)"
proof -
  let ?xs = "library_panel s"
  let ?after = "map (\<lambda>r. if ID r = ID p then m else r) ?xs"
  have "inj_on ID (set ?xs)"
    using wf by (simp add: well_formed_def distinct_map)
  then have same: "\<forall>r \<in> set ?xs. ID r = ID p \<longrightarrow> r = p"
    using p by (auto dest: inj_onD)
  have "map UID ?after = map UID ?xs"
    using same uid by auto
  moreover have "map ID ?after = map ID ?xs"
    using key by auto
  ultimately show ?thesis
    using wf by (simp add: well_formed_def del: map_map)
qed

text \<open>
  C10. For every patch, whatever the command sets or leaves unset: when the lookup finds
  the panel \<open>p\<close> for the \<open>uid\<close> and the caller's organization, the panel the operation
  returns has the key, the UID, the organization, \<open>Created\<close> and \<open>CreatedBy\<close> of \<open>p\<close>, its
  \<open>Updated\<close> is the current time and its \<open>UpdatedBy\<close> the acting user; with every field of
  the command unset it is \<open>p\<close> with only these two fields changed. On the reference
  database, for an existing panel \<open>p\<close> of a well-formed state, the operation succeeds and
  the row stored under the key of \<open>p\<close> afterwards is the returned panel, with the same
  seven properties.
\<close>

theorem patchLibraryPanel_keeps_identity:
  "(\<forall>p t1. Find_library_panel lps uid (OrgId (SignedInUser c)) t = (Inr [p], t1)
            \<and> UID p = uid \<and> OrgID p = OrgId (SignedInUser c) \<longrightarrow>
      (let m = fst (fst (patchLibraryPanel lps now c cmd uid t)) in
         ID m = ID p \<and> UID m = UID p \<and> OrgID m = OrgID p
         \<and> Created m = Created p \<and> CreatedBy m = CreatedBy p
         \<and> Updated m = now \<and> UpdatedBy m = UserId (SignedInUser c)
         \<and> (patch_FolderID cmd = 0 \<and> patch_Name cmd = [] \<and> patch_Model cmd = None \<longrightarrow>
              m = p\<lparr>Updated := now, UpdatedBy := UserId (SignedInUser c)\<rparr>)))
   \<and> (\<forall>p. well_formed s \<and> p \<in> set (library_panel s) \<and> UID p = uid
            \<and> OrgID p = OrgId (SignedInUser c) \<longrightarrow>
      (\<exists>m s'. patchLibraryPanel memStore now c cmd uid s = ((m, None), s')
         \<and> filter (\<lambda>r. ID r = ID p) (library_panel s') = [m]
         \<and> ID m = ID p \<and> UID m = UID p \<and> OrgID m = OrgID p
         \<and> Created m = Created p \<and> CreatedBy m = CreatedBy p
         \<and> Updated m = now \<and> UpdatedBy m = UserId (SignedInUser c)
         \<and> well_formed s'))"
proof (intro conjI allI impI)
  fix p t1
  assume a: "Find_library_panel lps uid (OrgId (SignedInUser c)) t = (Inr [p], t1)
             \<and> UID p = uid \<and> OrgID p = OrgId (SignedInUser c)"
  then have "fst (fst (patchLibraryPanel lps now c cmd uid t))
             = patchLibraryPanel_libraryPanel now c cmd uid p"
    by (simp add: patch_returns)
  then show "let m = fst (fst (patchLibraryPanel lps now c cmd uid t)) in
         ID m = ID p \<and> UID m = UID p \<and> OrgID m = OrgID p
         \<and> Created m = Created p \<and> CreatedBy m = CreatedBy p
         \<and> Updated m = now \<and> UpdatedBy m = UserId (SignedInUser c)
         \<and> (patch_FolderID cmd = 0 \<and> patch_Name cmd = [] \<and> patch_Model cmd = None \<longrightarrow>
              m = p\<lparr>Updated := now, UpdatedBy := UserId (SignedInUser c)\<rparr>)"
    using a by (simp add: Let_def patched_fields patched_unset)
next
  fix p
  assume a: "well_formed s \<and> p \<in> set (library_panel s) \<and> UID p = uid
             \<and> OrgID p = OrgId (SignedInUser c)"
  let ?m = "patchLibraryPanel_libraryPanel now c cmd uid p"
  let ?s' = "s\<lparr>library_panel := map (\<lambda>r. if ID r = ID p then ?m else r) (library_panel s)\<rparr>"
  have "patchLibraryPanel memStore now c cmd uid s = ((?m, None), ?s')"
    using a by (simp add: store_patch)
  moreover have "filter (\<lambda>r. ID r = ID p) (library_panel ?s') = [?m]"
    using a by (simp add: store_update_key patched_fields)
  moreover have "well_formed ?s'"
    using a by (intro store_update_well_formed) (simp_all add: patched_fields)
  moreover have "ID ?m = ID p \<and> UID ?m = UID p \<and> OrgID ?m = OrgID p
         \<and> Created ?m = Created p \<and> CreatedBy ?m = CreatedBy p
         \<and> Updated ?m = now \<and> UpdatedBy ?m = UserId (SignedInUser c)"
    using a by (simp add: patched_fields)
  ultimately show "\<exists>m s'. patchLibraryPanel memStore now c cmd uid s = ((m, None), s')
         \<and> filter (\<lambda>r. ID r = ID p) (library_panel s') = [m]
         \<and> ID m = ID p \<and> UID m = UID p \<and> OrgID m = OrgID p
         \<and> Created m = Created p \<and> CreatedBy m = CreatedBy p
         \<and> Updated m = now \<and> UpdatedBy m = UserId (SignedInUser c)
         \<and> well_formed s'"
    by blast
qed

theorem patchLibraryPanel_keeps_identity_witness:
  "patchLibraryPanel memStore 60 req touch ''cpu'' db
     = ((cpu_touched, None),
        \<lparr>library_panel = [cpu_touched, mem], library_panel_dashboard = [cpu_on_100],
         next_id = 3\<rparr>)
   \<and> ID cpu_touched = ID cpu \<and> UID cpu_touched = UID cpu \<and> OrgID cpu_touched = OrgID cpu
   \<and> Created cpu_touched = Created cpu \<and> CreatedBy cpu_touched = CreatedBy cpu
   \<and> Updated cpu_touched = 60 \<and> UpdatedBy cpu_touched = 42"
proof -
  have find: "Find_library_panel memStore ''cpu'' (OrgId (SignedInUser req)) db = (Inr [cpu], db)
        \<and> UID cpu = ''cpu'' \<and> OrgID cpu = OrgId (SignedInUser req)"
    by (simp add: store_find db_def cpu_def mem_def req_def panel_matches_def)
  have unset: "patch_FolderID touch = 0 \<and> patch_Name touch = [] \<and> patch_Model touch = None"
    by (simp add: touch_def)
  have m: "cpu\<lparr>Updated := 60, UpdatedBy := UserId (SignedInUser req)\<rparr> = cpu_touched"
    by (simp add: cpu_def cpu_touched_def req_def)
  from find unset
    patchLibraryPanel_keeps_identity [of memStore "''cpu''" req db 60 touch db,
      THEN conjunct1, THEN spec, of cpu, THEN spec, of db]
  have returned: "fst (fst (patchLibraryPanel memStore 60 req touch ''cpu'' db)) = cpu_touched
     \<and> ID cpu_touched = ID cpu \<and> UID cpu_touched = UID cpu \<and> OrgID cpu_touched = OrgID cpu
     \<and> Created cpu_touched = Created cpu \<and> CreatedBy cpu_touched = CreatedBy cpu
     \<and> Updated cpu_touched = 60 \<and> UpdatedBy cpu_touched = UserId (SignedInUser req)"
    unfolding Let_def m by metis
  have wf: "well_formed db \<and> cpu \<in> set (library_panel db) \<and> UID cpu = ''cpu''
        \<and> OrgID cpu = OrgId (SignedInUser req)"
    by (simp add: well_formed_def db_def cpu_def mem_def req_def cpu_on_100_def)
  with patchLibraryPanel_keeps_identity [of memStore "''cpu''" req db 60 touch db,
      THEN conjunct2, THEN spec, of cpu]
  obtain m s' where stored: "patchLibraryPanel memStore 60 req touch ''cpu'' db = ((m, None), s')"
    by blast
  have "snd (patchLibraryPanel memStore 60 req touch ''cpu'' db)
        = \<lparr>library_panel = [cpu_touched, mem], library_panel_dashboard = [cpu_on_100],
           next_id = 3\<rparr>"
    using wf returned by (simp add: store_patch [of db cpu]) (simp add: db_def cpu_def mem_def)
  with stored returned show ?thesis
    by (simp add: req_def)
qed

subsection \<open>Uniqueness violations\<close>

lemma create_inserted:
  "Insert_library_panel lps
     \<lparr>ID = 0, OrgID = OrgId (SignedInUser c), FolderID = create_FolderID cmd, UID = newUID,
      Name = create_Name cmd, Model = create_Model cmd, Created = now1, Updated = now2,
      CreatedBy = UserId (SignedInUser c), UpdatedBy = UserId (SignedInUser c)\<rparr> t
     = ((bean', r), t1)
   \<Longrightarrow> createLibraryPanel lps newUID now1 now2 c cmd t
       = (case r of
            Inl e \<Rightarrow>
              ((bean', Some (if IsUniqueConstraintViolation lps e
                             then errLibraryPanelAlreadyExists else sessionError e)), t)
          | Inr n \<Rightarrow> ((bean', None), t1))"
  by (simp add: createLibraryPanel_def transactional_Background split: sum.splits)

lemma patch_AlreadyExists:
  "snd (fst (patchLibraryPanel lps now c cmd uid t)) = Some errLibraryPanelAlreadyExists
   \<longleftrightarrow> (\<exists>p t1 e t2.
          Find_library_panel lps uid (OrgId (SignedInUser c)) t = (Inr [p], t1)
          \<and> Update_library_panel lps (ID p) (patchLibraryPanel_libraryPanel now c cmd uid p) t1
              = (Inl e, t2)
          \<and> IsUniqueConstraintViolation lps e)"
proof (cases "Find_library_panel lps uid (OrgId (SignedInUser c)) t")
  case (Pair answer t1)
  show ?thesis
  proof (cases answer)
    case (Inl e)
    with Pair show ?thesis
      by (simp add: patchLibraryPanel_def transactional_Background getLibraryPanel_def)
  next
    case (Inr rows)
    show ?thesis
    proof (cases rows)
      case Nil
      with Pair Inr show ?thesis
        by (simp add: patchLibraryPanel_def transactional_Background getLibraryPanel_def)
    next
      case (Cons p rest)
      show ?thesis
      proof (cases rest)
        case Nil
        with Pair Inr Cons
        have one: "Find_library_panel lps uid (OrgId (SignedInUser c)) t = (Inr [p], t1)"
          by simp
        show ?thesis
          unfolding patch_found [OF one] one
          by (auto split: prod.splits sum.splits)
      next
        case (Cons q more)
        with Pair Inr \<open>rows = p # rest\<close> show ?thesis
          by (simp add: patchLibraryPanel_def transactional_Background getLibraryPanel_def)
      qed
    qed
  qed
qed

text \<open>
  C6. \<^verbatim>\<open>createLibraryPanel\<close> is decided by the answer of its insert: an error the dialect
  classifies as a uniqueness violation becomes \<open>errLibraryPanelAlreadyExists\<close>, any other
  error is returned as the session gave it, and in both cases the database is rolled
  back; so the operation returns \<open>errLibraryPanelAlreadyExists\<close> if and only if the insert
  reported a uniqueness violation. \<^verbatim>\<open>patchLibraryPanel\<close> returns
  \<open>errLibraryPanelAlreadyExists\<close> if and only if the lookup found one panel and the
  update of it reported a uniqueness violation. On the reference database, creating a
  panel with a UID that a stored panel already has fails with
  \<open>errLibraryPanelAlreadyExists\<close> and leaves the database unchanged.
\<close>

theorem AlreadyExists_iff_unique_violation:
  "(\<forall>bean' r t1.
      Insert_library_panel lps
        \<lparr>ID = 0, OrgID = OrgId (SignedInUser c), FolderID = create_FolderID cmd, UID = newUID,
         Name = create_Name cmd, Model = create_Model cmd, Created = now1, Updated = now2,
         CreatedBy = UserId (SignedInUser c), UpdatedBy = UserId (SignedInUser c)\<rparr> t
        = ((bean', r), t1) \<longrightarrow>
      createLibraryPanel lps newUID now1 now2 c cmd t
        = (case r of
             Inl e \<Rightarrow>
               ((bean', Some (if IsUniqueConstraintViolation lps e
                              then errLibraryPanelAlreadyExists else sessionError e)), t)
           | Inr n \<Rightarrow> ((bean', None), t1))
      \<and> (snd (fst (createLibraryPanel lps newUID now1 now2 c cmd t))
            = Some errLibraryPanelAlreadyExists
          \<longleftrightarrow> (\<exists>e. r = Inl e \<and> IsUniqueConstraintViolation lps e)))
   \<and> (snd (fst (patchLibraryPanel lps now c pcmd uid t)) = Some errLibraryPanelAlreadyExists
        \<longleftrightarrow> (\<exists>p t1 e t2.
               Find_library_panel lps uid (OrgId (SignedInUser c)) t = (Inr [p], t1)
               \<and> Update_library_panel lps (ID p)
                    (patchLibraryPanel_libraryPanel now c pcmd uid p) t1 = (Inl e, t2)
               \<and> IsUniqueConstraintViolation lps e))
   \<and> ((\<exists>r \<in> set (library_panel s). UID r = newUID) \<longrightarrow>
        snd (createLibraryPanel memStore newUID now1 now2 c cmd s) = s
        \<and> snd (fst (createLibraryPanel memStore newUID now1 now2 c cmd s))
            = Some errLibraryPanelAlreadyExists)"
proof (intro conjI allI impI)
  fix bean' r t1
  assume ins: "Insert_library_panel lps
        \<lparr>ID = 0, OrgID = OrgId (SignedInUser c), FolderID = create_FolderID cmd, UID = newUID,
         Name = create_Name cmd, Model = create_Model cmd, Created = now1, Updated = now2,
         CreatedBy = UserId (SignedInUser c), UpdatedBy = UserId (SignedInUser c)\<rparr> t
        = ((bean', r), t1)"
  show "createLibraryPanel lps newUID now1 now2 c cmd t
        = (case r of
             Inl e \<Rightarrow>
               ((bean', Some (if IsUniqueConstraintViolation lps e
                              then errLibraryPanelAlreadyExists else sessionError e)), t)
           | Inr n \<Rightarrow> ((bean', None), t1))"
    using ins by (rule create_inserted)
  show "snd (fst (createLibraryPanel lps newUID now1 now2 c cmd t))
            = Some errLibraryPanelAlreadyExists
          \<longleftrightarrow> (\<exists>e. r = Inl e \<and> IsUniqueConstraintViolation lps e)"
    unfolding create_inserted [OF ins] by (cases r) auto
next
  show "snd (fst (patchLibraryPanel lps now c pcmd uid t)) = Some errLibraryPanelAlreadyExists
        \<longleftrightarrow> (\<exists>p t1 e t2.
               Find_library_panel lps uid (OrgId (SignedInUser c)) t = (Inr [p], t1)
               \<and> Update_library_panel lps (ID p)
                    (patchLibraryPanel_libraryPanel now c pcmd uid p) t1 = (Inl e, t2)
               \<and> IsUniqueConstraintViolation lps e)"
    by (rule patch_AlreadyExists)
next
  assume taken: "\<exists>r \<in> set (library_panel s). UID r = newUID"
  then have "createLibraryPanel memStore newUID now1 now2 c cmd s
        = ((\<lparr>ID = 0, OrgID = OrgId (SignedInUser c), FolderID = create_FolderID cmd,
             UID = newUID, Name = create_Name cmd, Model = create_Model cmd, Created = now1,
             Updated = now2, CreatedBy = UserId (SignedInUser c),
             UpdatedBy = UserId (SignedInUser c)\<rparr>, Some errLibraryPanelAlreadyExists), s)"
    by (simp add: createLibraryPanel_def transactional_Background memStore_def
          store_Insert_library_panel_def list_ex_iff)
  then show "snd (createLibraryPanel memStore newUID now1 now2 c cmd s) = s"
    and "snd (fst (createLibraryPanel memStore newUID now1 now2 c cmd s))
            = Some errLibraryPanelAlreadyExists"
    by simp_all
qed

theorem AlreadyExists_iff_unique_violation_witness:
  "createLibraryPanel memStore ''cpu'' 70 71 req new_panel db
     = ((gpu\<lparr>UID := ''cpu''\<rparr>, Some errLibraryPanelAlreadyExists), db)
   \<and> createLibraryPanel
       (memStore\<lparr>Insert_library_panel := (\<lambda>bean s. ((bean, Inl ConnectionLost), s))\<rparr>)
       ''gpu'' 70 71 req new_panel db
     = ((gpu, Some (sessionError ConnectionLost)), db)
   \<and> createLibraryPanel memStore ''gpu'' 70 71 req new_panel db
     = ((gpu\<lparr>ID := 3\<rparr>, None),
        \<lparr>library_panel = [cpu, mem, gpu\<lparr>ID := 3\<rparr>], library_panel_dashboard = [cpu_on_100],
         next_id = 4\<rparr>)
   \<and> snd (fst (patchLibraryPanel
                 (memStore\<lparr>Update_library_panel := (\<lambda>key bean s. (Inl UniqueViolation, s))\<rparr>)
                 50 req rename ''cpu'' db))
     = Some errLibraryPanelAlreadyExists
   \<and> snd (createLibraryPanel memStore ''mem'' 70 71 req new_panel db) = db
   \<and> snd (fst (createLibraryPanel memStore ''mem'' 70 71 req new_panel db))
     = Some errLibraryPanelAlreadyExists"
proof -
  let ?down = "memStore\<lparr>Insert_library_panel := (\<lambda>bean s. ((bean, Inl ConnectionLost), s))\<rparr>"
  let ?clash = "memStore\<lparr>Update_library_panel := (\<lambda>key bean s. (Inl UniqueViolation, s))\<rparr>"
  note collide = AlreadyExists_iff_unique_violation
      [of memStore req new_panel "''cpu''" 70 71 db 50 rename "''cpu''" db,
       THEN conjunct1, THEN spec, of "gpu\<lparr>UID := ''cpu''\<rparr>", THEN spec, of "Inl UniqueViolation",
       THEN spec, of db, THEN mp, THEN conjunct1]
  note fault = AlreadyExists_iff_unique_violation
      [of ?down req new_panel "''gpu''" 70 71 db 50 rename "''cpu''" db,
       THEN conjunct1, THEN spec, of gpu, THEN spec, of "Inl ConnectionLost",
       THEN spec, of db, THEN mp, THEN conjunct1]
  note fresh = AlreadyExists_iff_unique_violation
      [of memStore req new_panel "''gpu''" 70 71 db 50 rename "''cpu''" db,
       THEN conjunct1, THEN spec, of "gpu\<lparr>ID := 3\<rparr>", THEN spec, of "Inr 1", THEN spec,
       of "\<lparr>library_panel = [cpu, mem, gpu\<lparr>ID := 3\<rparr>],
            library_panel_dashboard = [cpu_on_100], next_id = 4\<rparr>", THEN mp, THEN conjunct1]
  note patched = AlreadyExists_iff_unique_violation
      [of ?clash req new_panel "''gpu''" 70 71 db 50 rename "''cpu''" db,
       THEN conjunct2, THEN conjunct1, THEN iffD2]
  have "createLibraryPanel memStore ''cpu'' 70 71 req new_panel db
     = ((gpu\<lparr>UID := ''cpu''\<rparr>, Some errLibraryPanelAlreadyExists), db)"
    by (rule trans [OF collide])
       (simp_all add: memStore_def store_Insert_library_panel_def db_def cpu_def mem_def
          req_def new_panel_def gpu_def)
  moreover have "createLibraryPanel ?down ''gpu'' 70 71 req new_panel db
     = ((gpu, Some (sessionError ConnectionLost)), db)"
    by (rule trans [OF fault]) (simp_all add: memStore_def req_def new_panel_def gpu_def)
  moreover have "createLibraryPanel memStore ''gpu'' 70 71 req new_panel db
     = ((gpu\<lparr>ID := 3\<rparr>, None),
        \<lparr>library_panel = [cpu, mem, gpu\<lparr>ID := 3\<rparr>], library_panel_dashboard = [cpu_on_100],
         next_id = 4\<rparr>)"
    by (rule trans [OF fresh])
       (simp_all add: memStore_def store_Insert_library_panel_def db_def cpu_def mem_def
          req_def new_panel_def gpu_def Let_def)
  moreover have "snd (fst (patchLibraryPanel ?clash 50 req rename ''cpu'' db))
     = Some errLibraryPanelAlreadyExists"
    by (rule patched, rule exI [of _ cpu], rule exI [of _ db], rule exI [of _ UniqueViolation],
        rule exI [of _ db])
       (simp add: memStore_def db_def cpu_def mem_def req_def panel_matches_def)
  moreover have "\<exists>r \<in> set (library_panel db). UID r = ''mem''"
    by (simp add: db_def mem_def)
  with AlreadyExists_iff_unique_violation
      [of memStore req new_panel "''mem''" 70 71 db 50 rename "''cpu''" db,
       THEN conjunct2, THEN conjunct2]
  have "snd (createLibraryPanel memStore ''mem'' 70 71 req new_panel db) = db
        \<and> snd (fst (createLibraryPanel memStore ''mem'' 70 71 req new_panel db))
          = Some errLibraryPanelAlreadyExists"
    by (rule mp)
  ultimately show ?thesis
    by simp
qed

subsection \<open>The caller's context\<close>

lemma lookup_not_cancelled:
  "snd (fst (getLibraryPanel lps uid orgID t)) \<noteq> Some contextCanceled"
  by (simp add: getLibraryPanel_def split: prod.splits sum.splits)

lemma writers_not_cancelled:
  "snd (fst (createLibraryPanel lps newUID now1 now2 c ccmd t)) \<noteq> Some contextCanceled"
  "fst (connectDashboard lps now c uid dashboardID t) \<noteq> Some contextCanceled"
  "fst (deleteLibraryPanel lps c uid t) \<noteq> Some contextCanceled"
  "fst (disconnectDashboard lps c uid dashboardID t) \<noteq> Some contextCanceled"
  "snd (fst (patchLibraryPanel lps now c pcmd uid t)) \<noteq> Some contextCanceled"
  using lookup_not_cancelled [of lps uid "OrgId (SignedInUser c)" t]
  by (auto simp: createLibraryPanel_def connectDashboard_def deleteLibraryPanel_def
        disconnectDashboard_def patchLibraryPanel_def transactional_Background Let_def
      split: prod.splits sum.splits option.splits if_splits)

lemma readers_not_cancelled:
  "snd (fst (getLibraryPanel_svc lps c uid t)) \<noteq> Some contextCanceled"
  "snd (fst (getAllLibraryPanels lps c t)) \<noteq> Some contextCanceled"
  "snd (fst (getConnectedDashboards lps c uid t)) \<noteq> Some contextCanceled"
  using lookup_not_cancelled [of lps uid "OrgId (SignedInUser c)" t]
  by (auto simp: getLibraryPanel_svc_def getAllLibraryPanels_def getConnectedDashboards_def
        plain_Background Let_def
      split: prod.splits sum.splits option.splits if_splits)

text \<open>
  C9, as the code has it. Every operation opens its scope with \<^verbatim>\<open>context.Background()\<close>
  and reads nothing of the request but the signed-in user: for every session and every
  context \<open>k\<close> the caller may supply, each of the eight operations returns the same
  result and leaves the same database as it does for any other context of the caller,
  and none of them fails with the error of a cancelled context.
\<close>

theorem operations_ignore_caller_context:
  "createLibraryPanel lps newUID now1 now2 (c\<lparr>Req_Context := k\<rparr>) ccmd t
     = createLibraryPanel lps newUID now1 now2 c ccmd t
   \<and> connectDashboard lps now (c\<lparr>Req_Context := k\<rparr>) uid dashboardID t
     = connectDashboard lps now c uid dashboardID t
   \<and> deleteLibraryPanel lps (c\<lparr>Req_Context := k\<rparr>) uid t = deleteLibraryPanel lps c uid t
   \<and> disconnectDashboard lps (c\<lparr>Req_Context := k\<rparr>) uid dashboardID t
     = disconnectDashboard lps c uid dashboardID t
   \<and> getLibraryPanel_svc lps (c\<lparr>Req_Context := k\<rparr>) uid t = getLibraryPanel_svc lps c uid t
   \<and> getAllLibraryPanels lps (c\<lparr>Req_Context := k\<rparr>) t = getAllLibraryPanels lps c t
   \<and> getConnectedDashboards lps (c\<lparr>Req_Context := k\<rparr>) uid t
     = getConnectedDashboards lps c uid t
   \<and> patchLibraryPanel lps now (c\<lparr>Req_Context := k\<rparr>) pcmd uid t
     = patchLibraryPanel lps now c pcmd uid t
   \<and> snd (fst (createLibraryPanel lps newUID now1 now2 c ccmd t)) \<noteq> Some contextCanceled
   \<and> fst (connectDashboard lps now c uid dashboardID t) \<noteq> Some contextCanceled
   \<and> fst (deleteLibraryPanel lps c uid t) \<noteq> Some contextCanceled
   \<and> fst (disconnectDashboard lps c uid dashboardID t) \<noteq> Some contextCanceled
   \<and> snd (fst (getLibraryPanel_svc lps c uid t)) \<noteq> Some contextCanceled
   \<and> snd (fst (getAllLibraryPanels lps c t)) \<noteq> Some contextCanceled
   \<and> snd (fst (getConnectedDashboards lps c uid t)) \<noteq> Some contextCanceled
   \<and> snd (fst (patchLibraryPanel lps now c pcmd uid t)) \<noteq> Some contextCanceled"
proof -
  have user: "SignedInUser (c\<lparr>Req_Context := k\<rparr>) = SignedInUser c"
    by simp
  have "createLibraryPanel lps newUID now1 now2 (c\<lparr>Req_Context := k\<rparr>) ccmd t
          = createLibraryPanel lps newUID now1 now2 c ccmd t"
    by (simp only: createLibraryPanel_def user)
  moreover have "connectDashboard lps now (c\<lparr>Req_Context := k\<rparr>) uid dashboardID t
          = connectDashboard lps now c uid dashboardID t"
    by (simp only: connectDashboard_def user)
  moreover have "deleteLibraryPanel lps (c\<lparr>Req_Context := k\<rparr>) uid t
          = deleteLibraryPanel lps c uid t"
    by (simp only: deleteLibraryPanel_def user)
  moreover have "disconnectDashboard lps (c\<lparr>Req_Context := k\<rparr>) uid dashboardID t
          = disconnectDashboard lps c uid dashboardID t"
    by (simp only: disconnectDashboard_def user)
  moreover have "getLibraryPanel_svc lps (c\<lparr>Req_Context := k\<rparr>) uid t
          = getLibraryPanel_svc lps c uid t"
    by (simp only: getLibraryPanel_svc_def user)
  moreover have "getAllLibraryPanels lps (c\<lparr>Req_Context := k\<rparr>) t = getAllLibraryPanels lps c t"
    by (simp only: getAllLibraryPanels_def user)
  moreover have "getConnectedDashboards lps (c\<lparr>Req_Context := k\<rparr>) uid t
          = getConnectedDashboards lps c uid t"
    by (simp only: getConnectedDashboards_def user)
  moreover have "patchLibraryPanel lps now (c\<lparr>Req_Context := k\<rparr>) pcmd uid t
          = patchLibraryPanel lps now c pcmd uid t"
    by (simp only: patchLibraryPanel_def patchLibraryPanel_libraryPanel_def user)
  ultimately show ?thesis
    by (simp only: writers_not_cancelled readers_not_cancelled simp_thms)
qed

text \<open>
  C9, as the claim states it, fails: the context of the request \<open>cancelled_req\<close> is
  cancelled, so a scope that were given it would not run; yet \<^verbatim>\<open>deleteLibraryPanel\<close> for
  this request deletes the panel and returns no error.
\<close>

theorem cancelled_caller_not_honoured:
  "Req_Context cancelled_req = WithCancel True
   \<and> (Err (Req_Context cancelled_req) :: store_error error option) = Some contextCanceled
   \<and> deleteLibraryPanel memStore cancelled_req ''cpu'' db
     = (None, \<lparr>library_panel = [mem], library_panel_dashboard = [cpu_on_100], next_id = 3\<rparr>)"
  by (simp add: cancelled_req_def Err_def deleteLibraryPanel_def transactional_Background
        memStore_def store_Delete_library_panel_def db_def cpu_def mem_def panel_matches_def)

subsection \<open>Which operations run in a transactional scope\<close>







end
